theory Spec2Isabelle
  imports
    Complex_Main
    "HOL-Library.Sublist"
    "HOL-Library.Char_ord"
    "HOL-Library.List_Lexorder"
    "HOL-Library.AList"
begin

section \<open>The Bravia TV update coordinator\<close>

text \<open>
  A shallow embedding of \<^verbatim>\<open>custom_components/braviatv/coordinator.py\<close>.
  The coordinator object is a record; every method takes the coordinator and returns the
  updated coordinator together with either the exception it raised (\<open>Inl\<close>) or its
  result (\<open>Inr\<close>). The payloads the device client returns are records of optional
  fields, an absent key being \<open>None\<close>.

  A Python string is a \<open>string\<close>: the list of its UTF-8 code units, on which equality,
  \<^verbatim>\<open>startswith\<close>, \<^verbatim>\<open>in\<close> and the order of \<^verbatim>\<open>sorted\<close> are those of the code
  points. What Python computes from the Unicode character database or in floating point
  (\<^verbatim>\<open>str.lower\<close>, \<^verbatim>\<open>str.isnumeric\<close>, \<^verbatim>\<open>int\<close> of a string, \<^verbatim>\<open>round\<close> of a
  float product) is not defined here: these functions are parameters of the model, so
  every theorem holds for whatever they compute.
\<close>

subsection \<open>Python primitives\<close>

text \<open>Truthiness of an optional string: \<open>None\<close> and the empty string are falsy.\<close>

definition truthy :: "string option \<Rightarrow> bool" where
  "truthy x = (case x of None \<Rightarrow> False | Some v \<Rightarrow> v \<noteq> [])"

text \<open>\<^verbatim>\<open>a or b\<close> on optional strings.\<close>

definition py_or :: "string option \<Rightarrow> string option \<Rightarrow> string option" where
  "py_or a b = (if truthy a then a else b)"

subsection \<open>Enumerations and exceptions\<close>

text \<open>
  Modelled from the spec: \<^verbatim>\<open>const.py\<close> is not among the sources. SourceType is its
  string enumeration with the members INPUT, APP and CHANNEL; MediaType is Home
  Assistant's string enumeration, of which the coordinator uses APP and CHANNEL. Members of
  both compare as their string values, which is how \<^verbatim>\<open>async_play_media\<close> passes a
  media type where a source type is expected.
\<close>

type_synonym SourceType = string
type_synonym MediaType = string

definition SourceType_INPUT :: SourceType where "SourceType_INPUT = ''input''"
definition SourceType_APP :: SourceType where "SourceType_APP = ''app''"
definition SourceType_CHANNEL :: SourceType where "SourceType_CHANNEL = ''channel''"
definition MediaType_APP :: MediaType where "MediaType_APP = ''app''"
definition MediaType_CHANNEL :: MediaType where "MediaType_CHANNEL = ''channel''"

text \<open>The errors of pybravia: BraviaError and the subclasses the coordinator names.\<close>

datatype BraviaError =
    BraviaAuthError
  | BraviaNotFound
  | BraviaConnectionError
  | BraviaConnectionTimeout
  | BraviaTurnedOff
  | BraviaOtherError

datatype value_error =
    Invalid_media_type string
  | Not_found SourceType string
  | Invalid_literal string
  | Invalid_isoformat string

datatype exn =
    Bravia BraviaError
  | ConfigEntryAuthFailed
  | UpdateFailed
  | ValueError value_error
  | AttributeError
  | KeyError

subsection \<open>Payloads of the device client\<close>

text \<open>A source entry, as the device lists it and as \<open>source_map\<close> stores it.\<close>

record item =
  i_title :: "string option"
  i_label :: "string option"
  i_uri :: "string option"
  i_dispNum :: "string option"
  i_type :: "SourceType option"
  i_other :: "(string \<times> string) list"

text \<open>\<^verbatim>\<open>item.get(key)\<close>.\<close>

definition item_get :: "item \<Rightarrow> string \<Rightarrow> string option" where
  "item_get d k =
     (if k = ''title'' then i_title d
      else if k = ''label'' then i_label d
      else if k = ''uri'' then i_uri d
      else if k = ''dispNum'' then i_dispNum d
      else if k = ''type'' then i_type d
      else map_of (i_other d) k)"

record volume_info =
  v_volume :: "int option"
  v_mute :: "bool option"
  v_target :: "string option"

record playing_info =
  p_title :: "string option"
  p_uri :: "string option"
  p_durationSec :: "int option"
  p_startDateTime :: "string option"
  p_label :: "string option"
  p_dispNum :: "string option"
  p_programTitle :: "string option"
  p_other :: "(string \<times> string) list"

text \<open>\<^verbatim>\<open>not playing_info\<close>: the dictionary has no key at all.\<close>

definition playing_info_empty :: "playing_info \<Rightarrow> bool" where
  "playing_info_empty p =
     (p_title p = None \<and> p_uri p = None \<and> p_durationSec p = None \<and> p_startDateTime p = None
      \<and> p_label p = None \<and> p_dispNum p = None \<and> p_programTitle p = None \<and> p_other p = [])"

subsection \<open>The coordinator and its collaborators\<close>

text \<open>The calls the coordinator issues to the device client, with their arguments.\<close>

datatype call =
    Connect_psk string
  | Connect_pin string string string
  | Get_power_status
  | Get_system_info
  | Get_external_status
  | Get_app_list
  | Get_content_list_all string
  | Get_volume_info
  | Get_playing_info
  | Set_active_app string
  | Set_play_content string
  | Turn_on
  | Turn_off
  | Volume_level int
  | Volume_up
  | Volume_down
  | Volume_mute
  | Play
  | Pause
  | Stop
  | Channel_up
  | Channel_down
  | Next_track
  | Previous_track
  | Send_command string
  | Get_command_list
  | Reboot
  | Terminate_apps

text \<open>
  The fields of BraviaTVCoordinator. The last two are not fields of the class: \<open>calls\<close>
  is the sequence of calls issued to the device client so far, \<open>refresh_requests\<close> counts
  the calls of \<^verbatim>\<open>async_request_refresh\<close>.
\<close>

record coordinator =
  pin :: string
  use_psk :: bool
  client_id :: string
  nickname :: string
  enable_user_labels :: bool
  system_info :: "(string \<times> string) list"
  source :: "string option"
  source_list :: "string list"
  source_map :: "(string \<times> item) list"
  media_title :: "string option"
  media_channel :: "string option"
  media_content_id :: "string option"
  media_content_type :: "MediaType option"
  media_uri :: "string option"
  media_duration :: "int option"
  media_position :: "int option"
  media_position_updated_at :: "int option"
  volume_level :: "real option"
  volume_target :: "string option"
  volume_muted :: bool
  is_on :: bool
  connected :: bool
  skipped_updates :: int
  calls :: "call list"
  refresh_requests :: nat

text \<open>
  The collaborators. The device client is opaque: each reply is a function of the calls
  issued so far, the last one being the call that is answered, and is either a device-API
  error or a payload. The clock gives \<^verbatim>\<open>datetime.now()\<close> as an instant and, for a start
  timestamp, the whole seconds elapsed since it (\<open>None\<close> when
  \<^verbatim>\<open>datetime.fromisoformat\<close> rejects the string). The last four fields are Python's
  own functions: \<^verbatim>\<open>str.lower\<close>, \<^verbatim>\<open>str.isnumeric\<close>, \<^verbatim>\<open>int\<close> of a string
  (\<open>None\<close> for its ValueError) and, for a volume, \<^verbatim>\<open>round(volume * 100)\<close>.
\<close>

record env =
  rsp_unit :: "call list \<Rightarrow> BraviaError + unit"
  rsp_power_status :: "call list \<Rightarrow> BraviaError + string"
  rsp_system_info :: "call list \<Rightarrow> BraviaError + (string \<times> string) list"
  rsp_items :: "call list \<Rightarrow> BraviaError + item list"
  rsp_volume_info :: "call list \<Rightarrow> BraviaError + volume_info"
  rsp_playing_info :: "call list \<Rightarrow> BraviaError + playing_info"
  rsp_send_command :: "call list \<Rightarrow> BraviaError + bool"
  rsp_command_list :: "call list \<Rightarrow> BraviaError + string list"
  elapsed_since :: "string \<Rightarrow> int option"
  now :: int
  str_lower :: "string \<Rightarrow> string"
  str_isnumeric :: "string \<Rightarrow> bool"
  str_int :: "string \<Rightarrow> int option"
  round_scaled :: "real \<Rightarrow> int"

text \<open>One awaited call of the device client: the call is recorded, the reply returned.\<close>

definition client_call ::
  "(call list \<Rightarrow> BraviaError + 'a) \<Rightarrow> call \<Rightarrow> coordinator \<Rightarrow> (exn + 'a) \<times> coordinator" where
  "client_call reply c s =
     (let h = calls s @ [c]
      in (case reply h of
            Inl e \<Rightarrow> (Inl (Bravia e), s\<lparr>calls := h\<rparr>)
          | Inr v \<Rightarrow> (Inr v, s\<lparr>calls := h\<rparr>)))"

subsection \<open>The source catalog\<close>

text \<open>
  The body of the loop of \<^verbatim>\<open>_sources_extend\<close>. \<open>source_map\<close> is a Python dict:
  assigning to a key that is present keeps its position, a new key goes to the end.
\<close>

definition sources_extend_step :: "SourceType \<Rightarrow> bool \<Rightarrow> coordinator \<Rightarrow> item \<Rightarrow> coordinator" where
  "sources_extend_step source_type add_to_list s item =
     (let title = item_get item ''title'';
          title = (if enable_user_labels s \<and> truthy (item_get item ''label'')
                   then item_get item ''label'' else title);
          uri = item_get item ''uri''
      in (case (title, uri) of
            (Some t, Some u) \<Rightarrow>
              if t = [] \<or> u = [] then s
              else
                let s1 = s\<lparr>source_map :=
                            AList.update u (item\<lparr>i_type := Some source_type\<rparr>) (source_map s)\<rparr>
                in if add_to_list \<and> t \<notin> set (source_list s1)
                   then s1\<lparr>source_list := source_list s1 @ [t]\<rparr>
                   else s1
          | _ \<Rightarrow> s))"

definition sources_extend ::
  "item list \<Rightarrow> SourceType \<Rightarrow> bool \<Rightarrow> string option \<Rightarrow> coordinator \<Rightarrow> coordinator" where
  "sources_extend sources source_type add_to_list sort_by s =
     (let sources' =
        (case sort_by of
           None \<Rightarrow> sources
         | Some k \<Rightarrow>
             if k = [] then sources
             else sort_key (\<lambda>d. case item_get d k of None \<Rightarrow> [] | Some v \<Rightarrow> v) sources)
      in foldl (sources_extend_step source_type add_to_list) s sources')"

definition async_update_sources :: "env \<Rightarrow> coordinator \<Rightarrow> (exn + unit) \<times> coordinator" where
  "async_update_sources cl s =
     (let s0 = s\<lparr>source_list := [], source_map := []\<rparr>
      in (case client_call (rsp_items cl) Get_external_status s0 of
            (Inl e, s1) \<Rightarrow> (Inl e, s1)
          | (Inr inputs, s1) \<Rightarrow>
              let s2 = sources_extend inputs SourceType_INPUT True None s1
              in (case client_call (rsp_items cl) Get_app_list s2 of
                    (Inl e, s3) \<Rightarrow> (Inl e, s3)
                  | (Inr apps, s3) \<Rightarrow>
                      let s4 = sources_extend apps SourceType_APP False (Some ''title'') s3
                      in (case client_call (rsp_items cl) (Get_content_list_all ''tv'') s4 of
                            (Inl e, s5) \<Rightarrow> (Inl e, s5)
                          | (Inr channels, s5) \<Rightarrow>
                              (Inr (), sources_extend channels SourceType_CHANNEL False None s5)))))"

subsection \<open>Source resolution\<close>

definition async_source_start ::
  "env \<Rightarrow> string \<Rightarrow> SourceType \<Rightarrow> coordinator \<Rightarrow> (exn + unit) \<times> coordinator" where
  "async_source_start cl uri source_type s =
     (if source_type = SourceType_APP
      then client_call (rsp_unit cl) (Set_active_app uri) s
      else client_call (rsp_unit cl) (Set_play_content uri) s)"

text \<open>
  The scan of \<^verbatim>\<open>async_source_find\<close> over \<open>source_map\<close>: it leaves the loop with
  the uri to start, with an exception, or at the end of the catalog with \<open>coarse_uri\<close>.
\<close>

datatype scan = Start string | Raise exn | Finished "string option"

fun source_find_scan ::
  "env \<Rightarrow> bool \<Rightarrow> string \<Rightarrow> SourceType \<Rightarrow> bool \<Rightarrow> (string \<times> item) list \<Rightarrow> string option \<Rightarrow> scan" where
  "source_find_scan cl labels query source_type is_numeric_search [] coarse_uri = Finished coarse_uri"
| "source_find_scan cl labels query source_type is_numeric_search ((uri, item) # rest) coarse_uri =
     (case i_type item of
        None \<Rightarrow> Raise KeyError
      | Some ty \<Rightarrow>
          if ty = source_type then
            (if is_numeric_search then
               (let num = item_get item ''dispNum''
                in (case num of
                      None \<Rightarrow> source_find_scan cl labels query source_type is_numeric_search rest coarse_uri
                    | Some n \<Rightarrow>
                        if n = [] then
                          source_find_scan cl labels query source_type is_numeric_search rest coarse_uri
                        else
                          (case str_int cl query of
                             None \<Rightarrow> Raise (ValueError (Invalid_literal query))
                           | Some a \<Rightarrow>
                               (case str_int cl n of
                                  None \<Rightarrow> Raise (ValueError (Invalid_literal n))
                                | Some b \<Rightarrow>
                                    if a = b then Start uri
                                    else source_find_scan cl labels query source_type
                                           is_numeric_search rest coarse_uri))))
             else
               (let title = item_get item ''title'';
                    title = (if labels \<and> truthy (item_get item ''label'')
                             then item_get item ''label'' else title)
                in (case title of
                      None \<Rightarrow> Raise AttributeError
                    | Some t \<Rightarrow>
                        if str_lower cl query = str_lower cl t then Start uri
                        else if sublist (str_lower cl query) (str_lower cl t) then
                          source_find_scan cl labels query source_type is_numeric_search rest (Some uri)
                        else
                          source_find_scan cl labels query source_type is_numeric_search rest coarse_uri)))
          else source_find_scan cl labels query source_type is_numeric_search rest coarse_uri)"

definition async_source_find ::
  "env \<Rightarrow> string \<Rightarrow> SourceType \<Rightarrow> coordinator \<Rightarrow> (exn + unit) \<times> coordinator" where
  "async_source_find cl query source_type s =
     (if prefix ''extInput:'' query \<or> prefix ''tv:'' query \<or> prefix ''com.sony.dtv.'' query
      then async_source_start cl query source_type s
      else
        let is_numeric_search = (source_type = SourceType_CHANNEL \<and> str_isnumeric cl query)
        in (case source_find_scan cl (enable_user_labels s) query source_type is_numeric_search
                   (source_map s) None of
              Start uri \<Rightarrow> async_source_start cl uri source_type s
            | Raise e \<Rightarrow> (Inl e, s)
            | Finished coarse_uri \<Rightarrow>
                if truthy coarse_uri
                then async_source_start cl (the coarse_uri) source_type s
                else (Inl (ValueError (Not_found source_type query)), s)))"

subsection \<open>Volume and playback state\<close>

definition async_update_volume :: "env \<Rightarrow> coordinator \<Rightarrow> (exn + unit) \<times> coordinator" where
  "async_update_volume cl s =
     (case client_call (rsp_volume_info cl) Get_volume_info s of
        (Inl e, s1) \<Rightarrow> (Inl e, s1)
      | (Inr volume_info, s1) \<Rightarrow>
          (case v_volume volume_info of
             None \<Rightarrow> (Inr (), s1)
           | Some volume_level' \<Rightarrow>
               (Inr (), s1\<lparr>volume_level := Some (real_of_int volume_level' / 100),
                           volume_muted := (case v_mute volume_info of None \<Rightarrow> False | Some m \<Rightarrow> m),
                           volume_target := v_target volume_info\<rparr>)))"

text \<open>\<^verbatim>\<open>x and x.startswith(pre)\<close> on an optional string.\<close>

definition starts_with :: "string option \<Rightarrow> string \<Rightarrow> bool" where
  "starts_with x pre = (case x of None \<Rightarrow> False | Some u \<Rightarrow> u \<noteq> [] \<and> prefix pre u)"

text \<open>\<^verbatim>\<open>self.source_map[uri]\<close> behind the test \<^verbatim>\<open>uri in self.source_map\<close>.\<close>

definition catalog_entry :: "coordinator \<Rightarrow> string option \<Rightarrow> item option" where
  "catalog_entry s uri = (case uri of None \<Rightarrow> None | Some u \<Rightarrow> map_of (source_map s) u)"

definition async_update_playing :: "env \<Rightarrow> coordinator \<Rightarrow> (exn + unit) \<times> coordinator" where
  "async_update_playing cl s =
     (case client_call (rsp_playing_info cl) Get_playing_info s of
        (Inl e, s1) \<Rightarrow> (Inl e, s1)
      | (Inr playing_info, s1) \<Rightarrow>
          let s2 = s1\<lparr>media_title := p_title playing_info,
                      media_uri := p_uri playing_info,
                      media_duration := p_durationSec playing_info,
                      media_channel := None,
                      media_content_id := None,
                      media_content_type := None,
                      source := None\<rparr>
          in (case (case p_startDateTime playing_info of
                      None \<Rightarrow> Inr (s2\<lparr>media_position := None, media_position_updated_at := None\<rparr>)
                    | Some start_datetime \<Rightarrow>
                        if start_datetime = []
                        then Inr (s2\<lparr>media_position := None, media_position_updated_at := None\<rparr>)
                        else (case elapsed_since cl start_datetime of
                                None \<Rightarrow> Inl (ValueError (Invalid_isoformat start_datetime))
                              | Some d \<Rightarrow>
                                  Inr (s2\<lparr>media_position := Some d,
                                          media_position_updated_at := Some (now cl)\<rparr>))) of
                Inl e \<Rightarrow> (Inl e, s2)
              | Inr s3 \<Rightarrow>
                  if playing_info_empty playing_info then
                    (Inr (), s3\<lparr>media_title := Some ''Smart TV'',
                                media_content_type := Some MediaType_APP\<rparr>)
                  else
                    let s4 = (if truthy (media_uri s3)
                              then s3\<lparr>media_content_id := media_uri s3\<rparr> else s3)
                    in if starts_with (media_uri s4) ''extInput'' then
                         (let label = None;
                              label = (if enable_user_labels s4
                                       then (case catalog_entry s4 (media_uri s4) of
                                               None \<Rightarrow> label
                                             | Some entry \<Rightarrow> item_get entry ''label'')
                                       else label);
                              label = (if \<not> truthy label then p_label playing_info else label)
                          in if truthy label
                             then (Inr (), s4\<lparr>source := label, media_title := label\<rparr>)
                             else (Inr (), s4\<lparr>source := p_title playing_info,
                                              media_title := p_title playing_info\<rparr>))
                       else if starts_with (media_uri s4) ''tv'' then
                         (let s5 = s4\<lparr>media_content_id := p_dispNum playing_info\<rparr>;
                              s6 = s5\<lparr>media_title :=
                                        py_or (p_programTitle playing_info) (media_content_id s5)\<rparr>;
                              s7 = s6\<lparr>media_channel :=
                                        py_or (p_title playing_info) (media_content_id s6)\<rparr>
                          in (Inr (), s7\<lparr>media_content_type := Some MediaType_CHANNEL\<rparr>))
                       else
                         (let label = p_label playing_info;
                              label = (if enable_user_labels s4
                                       then (case catalog_entry s4 (media_uri s4) of
                                               None \<Rightarrow> label
                                             | Some entry \<Rightarrow>
                                                 (case item_get entry ''label'' of
                                                    None \<Rightarrow> label
                                                  | Some l \<Rightarrow> Some l))
                                       else label)
                          in if truthy label
                             then (Inr (), s4\<lparr>source := label, media_title := label\<rparr>)
                             else if truthy (p_title playing_info)
                             then (Inr (), s4\<lparr>source := p_title playing_info,
                                              media_title := p_title playing_info\<rparr>)
                             else (Inr (), s4))))"

subsection \<open>The refresh cycle\<close>

text \<open>The body of the \<^verbatim>\<open>try\<close> of \<^verbatim>\<open>_async_update_data\<close>, in three parts.\<close>

definition update_connect :: "env \<Rightarrow> coordinator \<Rightarrow> (exn + unit) \<times> coordinator" where
  "update_connect cl s =
     (if \<not> connected s then
        (case client_call (rsp_unit cl)
                (if use_psk s then Connect_psk (pin s)
                 else Connect_pin (pin s) (client_id s) (nickname s)) s of
           (Inl (Bravia BraviaAuthError), s1) \<Rightarrow> (Inl ConfigEntryAuthFailed, s1)
         | (Inl e, s1) \<Rightarrow> (Inl e, s1)
         | (Inr u, s1) \<Rightarrow> (Inr (), s1\<lparr>connected := True\<rparr>))
      else (Inr (), s))"

definition update_queries :: "env \<Rightarrow> coordinator \<Rightarrow> (exn + unit) \<times> coordinator" where
  "update_queries cl s =
     (case (if source_map s = [] then async_update_sources cl s else (Inr (), s)) of
        (Inl e, s1) \<Rightarrow> (Inl e, s1)
      | (Inr u, s1) \<Rightarrow>
          (case async_update_volume cl s1 of
             (Inl e, s2) \<Rightarrow> (Inl e, s2)
           | (Inr u, s2) \<Rightarrow> async_update_playing cl s2))"

definition update_try :: "env \<Rightarrow> coordinator \<Rightarrow> (exn + unit) \<times> coordinator" where
  "update_try cl s =
     (case update_connect cl s of
        (Inl e, s1) \<Rightarrow> (Inl e, s1)
      | (Inr u, s1) \<Rightarrow>
          (case client_call (rsp_power_status cl) Get_power_status s1 of
             (Inl e, s2) \<Rightarrow> (Inl e, s2)
           | (Inr power_status, s2) \<Rightarrow>
               let s3 = s2\<lparr>is_on := (power_status = ''active''), skipped_updates := 0\<rparr>
               in (case (if system_info s3 = []
                         then (case client_call (rsp_system_info cl) Get_system_info s3 of
                                 (Inl e, s4) \<Rightarrow> (Inl e, s4)
                               | (Inr info, s4) \<Rightarrow> (Inr (), s4\<lparr>system_info := info\<rparr>))
                         else (Inr (), s3)) of
                     (Inl e, s5) \<Rightarrow> (Inl e, s5)
                   | (Inr u, s5) \<Rightarrow>
                       if \<not> is_on s5 then (Inr (), s5) else update_queries cl s5)))"

text \<open>\<^verbatim>\<open>_async_update_data\<close>: the \<^verbatim>\<open>try\<close> with its handlers, in their order.\<close>

definition async_update_data :: "env \<Rightarrow> coordinator \<Rightarrow> (exn + unit) \<times> coordinator" where
  "async_update_data cl s =
     (case update_try cl s of
        (Inr u, s1) \<Rightarrow> (Inr (), s1)
      | (Inl (Bravia err), s1) \<Rightarrow>
          if err = BraviaNotFound then
            (if skipped_updates s1 < 10
             then (Inr (), s1\<lparr>connected := False, skipped_updates := skipped_updates s1 + 1\<rparr>)
             else (Inl UpdateFailed, s1))
          else if err = BraviaConnectionError \<or> err = BraviaConnectionTimeout
                  \<or> err = BraviaTurnedOff
          then (Inr (), s1\<lparr>is_on := False, connected := False\<rparr>)
          else (Inl UpdateFailed, s1\<lparr>is_on := False, connected := False\<rparr>)
      | (Inl e, s1) \<Rightarrow> (Inl e, s1))"

subsection \<open>Commands\<close>

definition async_request_refresh :: "coordinator \<Rightarrow> (exn + unit) \<times> coordinator" where
  "async_request_refresh s = (Inr (), s\<lparr>refresh_requests := Suc (refresh_requests s)\<rparr>)"

text \<open>The decorator: \<open>func\<close> is the method it wraps.\<close>

definition catch_braviatv_errors ::
  "(coordinator \<Rightarrow> (exn + unit) \<times> coordinator) \<Rightarrow> coordinator \<Rightarrow> (exn + unit) \<times> coordinator" where
  "catch_braviatv_errors func s =
     (case func s of
        (Inr u, s1) \<Rightarrow> async_request_refresh s1
      | (Inl (Bravia err), s1) \<Rightarrow> async_request_refresh s1
      | (Inl e, s1) \<Rightarrow> (Inl e, s1))"

text \<open>The loops of \<^verbatim>\<open>async_send_command\<close>: the codes of one repeat, then the repeats.\<close>

fun send_command_codes :: "env \<Rightarrow> string list \<Rightarrow> coordinator \<Rightarrow> (exn + unit) \<times> coordinator" where
  "send_command_codes cl [] s = (Inr (), s)"
| "send_command_codes cl (cmd # rest) s =
     (case client_call (rsp_send_command cl) (Send_command cmd) s of
        (Inl e, s1) \<Rightarrow> (Inl e, s1)
      | (Inr response, s1) \<Rightarrow>
          if \<not> response then
            (case client_call (rsp_command_list cl) Get_command_list s1 of
               (Inl e, s2) \<Rightarrow> (Inl e, s2)
             | (Inr commands, s2) \<Rightarrow> send_command_codes cl rest s2)
          else send_command_codes cl rest s1)"

fun send_command_repeats ::
  "env \<Rightarrow> string list \<Rightarrow> nat \<Rightarrow> coordinator \<Rightarrow> (exn + unit) \<times> coordinator" where
  "send_command_repeats cl command 0 s = (Inr (), s)"
| "send_command_repeats cl command (Suc n) s =
     (case send_command_codes cl command s of
        (Inl e, s1) \<Rightarrow> (Inl e, s1)
      | (Inr u, s1) \<Rightarrow> send_command_repeats cl command n s1)"

text \<open>
  The commands of the coordinator, all of them decorated. \<open>command_body\<close> is the
  method as written, \<open>run_command\<close> the method as callers see it.
\<close>

datatype command =
    Async_turn_on
  | Async_turn_off
  | Async_set_volume_level real
  | Async_volume_up
  | Async_volume_down
  | Async_volume_mute bool
  | Async_media_play
  | Async_media_pause
  | Async_media_stop
  | Async_media_next_track
  | Async_media_previous_track
  | Async_play_media MediaType string
  | Async_select_source string
  | Async_send_command "string list" int
  | Async_reboot_device
  | Async_terminate_apps

fun command_body :: "env \<Rightarrow> command \<Rightarrow> coordinator \<Rightarrow> (exn + unit) \<times> coordinator" where
  "command_body cl Async_turn_on s = client_call (rsp_unit cl) Turn_on s"
| "command_body cl Async_turn_off s = client_call (rsp_unit cl) Turn_off s"
| "command_body cl (Async_set_volume_level volume) s =
     client_call (rsp_unit cl) (Volume_level (round_scaled cl volume)) s"
| "command_body cl Async_volume_up s = client_call (rsp_unit cl) Volume_up s"
| "command_body cl Async_volume_down s = client_call (rsp_unit cl) Volume_down s"
| "command_body cl (Async_volume_mute mute) s = client_call (rsp_unit cl) Volume_mute s"
| "command_body cl Async_media_play s = client_call (rsp_unit cl) Play s"
| "command_body cl Async_media_pause s = client_call (rsp_unit cl) Pause s"
| "command_body cl Async_media_stop s = client_call (rsp_unit cl) Stop s"
| "command_body cl Async_media_next_track s =
     (if media_content_type s = Some MediaType_CHANNEL
      then client_call (rsp_unit cl) Channel_up s
      else client_call (rsp_unit cl) Next_track s)"
| "command_body cl Async_media_previous_track s =
     (if media_content_type s = Some MediaType_CHANNEL
      then client_call (rsp_unit cl) Channel_down s
      else client_call (rsp_unit cl) Previous_track s)"
| "command_body cl (Async_play_media media_type media_id) s =
     (if media_type \<notin> set [MediaType_APP, MediaType_CHANNEL]
      then (Inl (ValueError (Invalid_media_type media_type)), s)
      else async_source_find cl media_id media_type s)"
| "command_body cl (Async_select_source source') s =
     async_source_find cl source' SourceType_INPUT s"
| "command_body cl (Async_send_command command repeats) s =
     send_command_repeats cl command (nat repeats) s"
| "command_body cl Async_reboot_device s = client_call (rsp_unit cl) Reboot s"
| "command_body cl Async_terminate_apps s = client_call (rsp_unit cl) Terminate_apps s"

definition run_command :: "env \<Rightarrow> command \<Rightarrow> coordinator \<Rightarrow> (exn + unit) \<times> coordinator" where
  "run_command cl c = catch_braviatv_errors (command_body cl c)"

subsection \<open>Construction and example inputs\<close>

text \<open>\<^verbatim>\<open>__init__\<close>: the configuration goes in, every other field starts empty.\<close>

definition init_coordinator :: "string \<Rightarrow> bool \<Rightarrow> string \<Rightarrow> string \<Rightarrow> bool \<Rightarrow> coordinator" where
  "init_coordinator pin' use_psk' client_id' nickname' labels =
     \<lparr>pin = pin', use_psk = use_psk', client_id = client_id', nickname = nickname',
      enable_user_labels = labels, system_info = [], source = None, source_list = [],
      source_map = [], media_title = None, media_channel = None, media_content_id = None,
      media_content_type = None, media_uri = None, media_duration = None,
      media_position = None, media_position_updated_at = None, volume_level = None,
      volume_target = None, volume_muted = False, is_on = False, connected = False,
      skipped_updates = 0, calls = [], refresh_requests = 0\<rparr>"

text \<open>
  The string functions of Python on ASCII strings, for the examples. On a string of ASCII
  characters \<^verbatim>\<open>str.lower\<close> maps the letters A to Z and nothing else.
\<close>

definition ascii_lower_char :: "char \<Rightarrow> char" where
  "ascii_lower_char c =
     (case map_of (zip ''ABCDEFGHIJKLMNOPQRSTUVWXYZ'' ''abcdefghijklmnopqrstuvwxyz'') c of
        None \<Rightarrow> c
      | Some d \<Rightarrow> d)"

definition ascii_lower :: "string \<Rightarrow> string" where
  "ascii_lower s = map ascii_lower_char s"

text \<open>\<^verbatim>\<open>str.isnumeric\<close> on an ASCII string: at least one character, all of them digits.\<close>

definition is_digit :: "char \<Rightarrow> bool" where
  "is_digit c = (c \<in> set ''0123456789'')"

definition ascii_isnumeric :: "string \<Rightarrow> bool" where
  "ascii_isnumeric q = (q \<noteq> [] \<and> list_all is_digit q)"

text \<open>
  \<^verbatim>\<open>int(s)\<close> on an ASCII string: surrounding white space is stripped, one sign is
  allowed, single underscores may separate digits. \<open>None\<close> stands for the ValueError.
\<close>

definition digit_val :: "char \<Rightarrow> nat" where
  "digit_val c = of_char c - of_char (CHR ''0'')"

definition digits_val :: "string \<Rightarrow> nat" where
  "digits_val ds = foldl (\<lambda>acc c. 10 * acc + digit_val c) 0 ds"

definition is_blank :: "char \<Rightarrow> bool" where
  "is_blank c = (c \<in> set [CHR '' '', CHR 0x09, CHR 0x0A, CHR 0x0B, CHR 0x0C, CHR 0x0D,
                           CHR 0x1C, CHR 0x1D, CHR 0x1E, CHR 0x1F])"

definition strip :: "string \<Rightarrow> string" where
  "strip s = rev (dropWhile is_blank (rev (dropWhile is_blank s)))"

definition valid_digits :: "string \<Rightarrow> bool" where
  "valid_digits b =
     (b \<noteq> [] \<and> is_digit (hd b) \<and> is_digit (last b)
      \<and> list_all (\<lambda>c. is_digit c \<or> c = CHR ''_'') b
      \<and> \<not> sublist ''__'' b)"

definition ascii_int :: "string \<Rightarrow> int option" where
  "ascii_int s =
     (let t = strip s;
          neg = (t \<noteq> [] \<and> hd t = CHR ''-'');
          b = (if t \<noteq> [] \<and> (hd t = CHR ''-'' \<or> hd t = CHR ''+'') then tl t else t)
      in if valid_digits b
         then Some ((if neg then - 1 else 1) * int (digits_val (filter (\<lambda>c. c \<noteq> CHR ''_'') b)))
         else None)"

text \<open>
  \<^verbatim>\<open>round(x)\<close> of a real number: the nearest integer, halves to the even one. The
  examples round the exact product; no example sets a volume.
\<close>

definition round_half_even :: "real \<Rightarrow> int" where
  "round_half_even x =
     (let f = \<lfloor>x\<rfloor>; d = x - of_int f
      in if d < 1 / 2 then f else if 1 / 2 < d then f + 1 else if even f then f else f + 1)"

text \<open>
  Payloads with no key, a client that answers every call with them, and a coordinator.
  The client's clock accepts no timestamp (the examples carry none that
  \<^verbatim>\<open>datetime.fromisoformat\<close> accepts), and its string functions are those above, the
  strings of the examples being ASCII.
\<close>

definition no_playing_info :: playing_info where
  "no_playing_info =
     \<lparr>p_title = None, p_uri = None, p_durationSec = None, p_startDateTime = None,
      p_label = None, p_dispNum = None, p_programTitle = None, p_other = []\<rparr>"

definition no_volume_info :: volume_info where
  "no_volume_info = \<lparr>v_volume = None, v_mute = None, v_target = None\<rparr>"

definition idle_env :: env where
  "idle_env =
     \<lparr>rsp_unit = (\<lambda>h. Inr ()), rsp_power_status = (\<lambda>h. Inr ''active''),
      rsp_system_info = (\<lambda>h. Inr [(''model'', ''KD-55'')]), rsp_items = (\<lambda>h. Inr []),
      rsp_volume_info = (\<lambda>h. Inr no_volume_info),
      rsp_playing_info = (\<lambda>h. Inr no_playing_info),
      rsp_send_command = (\<lambda>h. Inr True), rsp_command_list = (\<lambda>h. Inr []),
      elapsed_since = (\<lambda>t. None), now = 0,
      str_lower = ascii_lower, str_isnumeric = ascii_isnumeric, str_int = ascii_int,
      round_scaled = (\<lambda>volume. round_half_even (volume * 100))\<rparr>"

definition example_coordinator :: coordinator where
  "example_coordinator = init_coordinator ''0000'' True ''ha'' ''Home Assistant'' True"

definition tv_playing_info :: playing_info where
  "tv_playing_info =
     no_playing_info\<lparr>p_uri := Some ''tv:dvbt'', p_dispNum := Some ''5'',
       p_title := Some ''NewsCh'', p_programTitle := Some ''Evening News''\<rparr>"

text \<open>Clients whose power query meets a reloading API, and whose commands fail.\<close>

text \<open>
  A channel payload without program title and with an empty title, and one whose start
  timestamp \<^verbatim>\<open>datetime.fromisoformat\<close> rejects.
\<close>

definition tv_untitled_info :: playing_info where
  "tv_untitled_info =
     no_playing_info\<lparr>p_uri := Some ''tv:dvbt'', p_dispNum := Some ''5'', p_title := Some []\<rparr>"

definition tv_malformed_start_info :: playing_info where
  "tv_malformed_start_info = tv_playing_info\<lparr>p_startDateTime := Some ''tomorrow''\<rparr>"

definition not_found_env :: env where
  "not_found_env = idle_env\<lparr>rsp_power_status := (\<lambda>h. Inl BraviaNotFound)\<rparr>"

definition failing_env :: env where
  "failing_env = idle_env\<lparr>rsp_unit := (\<lambda>h. Inl BraviaConnectionError)\<rparr>"

text \<open>
  The calls of a refresh cycle that come before \<open>skipped_updates\<close> is reset: connecting
  and the power query.
\<close>

definition before_reset :: "call \<Rightarrow> bool" where
  "before_reset c =
     (case c of Connect_psk p \<Rightarrow> True | Connect_pin p c n \<Rightarrow> True | Get_power_status \<Rightarrow> True
      | _ \<Rightarrow> False)"

subsection \<open>The specification's notions\<close>

text \<open>
  The display title of the specification: the label when user labels are enabled and the
  entry has a non-empty one, else the title. An entry is usable when it has a non-empty
  display title and a non-empty uri.
\<close>

definition display_title :: "bool \<Rightarrow> item \<Rightarrow> string option" where
  "display_title labels i =
     (case i_label i of
        None \<Rightarrow> i_title i
      | Some l \<Rightarrow> if labels \<and> l \<noteq> [] then Some l else i_title i)"

definition usable :: "bool \<Rightarrow> item \<Rightarrow> bool" where
  "usable labels i = (truthy (display_title labels i) \<and> truthy (i_uri i))"

definition usable_titles :: "bool \<Rightarrow> item list \<Rightarrow> string set" where
  "usable_titles labels xs = {t. \<exists>i \<in> set xs. usable labels i \<and> display_title labels i = Some t}"

definition usable_uris :: "bool \<Rightarrow> item list \<Rightarrow> string set" where
  "usable_uris labels xs = {u. \<exists>i \<in> set xs. usable labels i \<and> i_uri i = Some u}"

text \<open>
  Matching of the specification: on the display title, case-insensitively, among the
  entries of the requested kind.
\<close>

definition exact_match :: "env \<Rightarrow> bool \<Rightarrow> string \<Rightarrow> SourceType \<Rightarrow> string \<times> item \<Rightarrow> bool" where
  "exact_match cl labels query ty e =
     (i_type (snd e) = Some ty
      \<and> (case display_title labels (snd e) of None \<Rightarrow> False | Some t \<Rightarrow> str_lower cl query = str_lower cl t))"

definition substring_match :: "env \<Rightarrow> bool \<Rightarrow> string \<Rightarrow> SourceType \<Rightarrow> string \<times> item \<Rightarrow> bool" where
  "substring_match cl labels query ty e =
     (i_type (snd e) = Some ty
      \<and> (case display_title labels (snd e) of
            None \<Rightarrow> False | Some t \<Rightarrow> sublist (str_lower cl query) (str_lower cl t)))"

text \<open>
  What every catalog built by \<^verbatim>\<open>_sources_extend\<close> satisfies: each entry has a
  non-empty uri, a kind and a display title.
\<close>

definition well_formed_catalog :: "bool \<Rightarrow> (string \<times> item) list \<Rightarrow> bool" where
  "well_formed_catalog labels sm =
     list_all (\<lambda>e. fst e \<noteq> [] \<and> i_type (snd e) \<noteq> None \<and> display_title labels (snd e) \<noteq> None) sm"

text \<open>A query that is itself a device content identifier.\<close>

definition is_uri_query :: "string \<Rightarrow> bool" where
  "is_uri_query query =
     (prefix ''extInput:'' query \<or> prefix ''tv:'' query \<or> prefix ''com.sony.dtv.'' query)"

text \<open>A payload whose start timestamp, if it has one, is read without error.\<close>

definition start_ok :: "env \<Rightarrow> playing_info \<Rightarrow> bool" where
  "start_ok cl p =
     (case p_startDateTime p of None \<Rightarrow> True | Some t \<Rightarrow> t = [] \<or> elapsed_since cl t \<noteq> None)"

text \<open>
  The coordinator after each of the three stages of \<^verbatim>\<open>async_update_sources\<close>, for
  the lists the client returned.
\<close>

definition build_inputs :: "item list \<Rightarrow> coordinator \<Rightarrow> coordinator" where
  "build_inputs inputs s =
     sources_extend inputs SourceType_INPUT True None
       (s\<lparr>source_list := [], source_map := [], calls := calls s @ [Get_external_status]\<rparr>)"

definition build_apps :: "item list \<Rightarrow> item list \<Rightarrow> coordinator \<Rightarrow> coordinator" where
  "build_apps inputs apps s =
     sources_extend apps SourceType_APP False (Some ''title'')
       ((build_inputs inputs s)\<lparr>calls := calls s @ [Get_external_status, Get_app_list]\<rparr>)"

definition build_channels :: "item list \<Rightarrow> item list \<Rightarrow> item list \<Rightarrow> coordinator \<Rightarrow> coordinator" where
  "build_channels inputs apps channels s =
     sources_extend channels SourceType_CHANNEL False None
       ((build_apps inputs apps s)\<lparr>calls := calls s @ [Get_external_status, Get_app_list,
           Get_content_list_all ''tv'']\<rparr>)"

subsection \<open>Example catalogs\<close>

text \<open>
  A device with two inputs that carry the same label, an input without uri, two apps and
  a channel.
\<close>

definition blank_item :: item where
  "blank_item = \<lparr>i_title = None, i_label = None, i_uri = None, i_dispNum = None,
                 i_type = None, i_other = []\<rparr>"

definition catalog_inputs :: "item list" where
  "catalog_inputs =
     [blank_item\<lparr>i_title := Some ''HDMI 1'', i_label := Some ''Console'',
                 i_uri := Some ''extInput:hdmi?port=1''\<rparr>,
      blank_item\<lparr>i_title := Some ''HDMI 2'', i_label := Some ''Console'',
                 i_uri := Some ''extInput:hdmi?port=2''\<rparr>,
      blank_item\<lparr>i_title := Some ''HDMI 3'', i_uri := Some ''extInput:hdmi?port=3''\<rparr>,
      blank_item\<lparr>i_title := Some ''HDMI 4''\<rparr>]"

definition catalog_apps :: "item list" where
  "catalog_apps =
     [blank_item\<lparr>i_title := Some ''Netflix'', i_uri := Some ''com.sony.dtv.netflix''\<rparr>,
      blank_item\<lparr>i_title := Some ''Browser'', i_uri := Some ''com.sony.dtv.browser''\<rparr>]"

definition catalog_channels :: "item list" where
  "catalog_channels =
     [blank_item\<lparr>i_title := Some ''NewsCh'', i_uri := Some ''tv:dvbt?trip=1.2.3'',
                 i_dispNum := Some ''5''\<rparr>]"

definition catalog_env :: env where
  "catalog_env =
     idle_env\<lparr>rsp_items := (\<lambda>h. case last h of
                                   Get_external_status \<Rightarrow> Inr catalog_inputs
                                 | Get_app_list \<Rightarrow> Inr catalog_apps
                                 | _ \<Rightarrow> Inr catalog_channels)\<rparr>"

text \<open>A catalog with three inputs whose titles contain ``news'', and a channel.\<close>

definition news_coordinator :: coordinator where
  "news_coordinator =
     example_coordinator\<lparr>source_map :=
       [(''extInput:hdmi?port=1'',
         blank_item\<lparr>i_title := Some ''Newsroom Live'', i_uri := Some ''extInput:hdmi?port=1'',
                    i_type := Some SourceType_INPUT\<rparr>),
        (''extInput:hdmi?port=2'',
         blank_item\<lparr>i_title := Some ''Newsroom'', i_uri := Some ''extInput:hdmi?port=2'',
                    i_type := Some SourceType_INPUT\<rparr>),
        (''extInput:hdmi?port=3'',
         blank_item\<lparr>i_title := Some ''News 24'', i_uri := Some ''extInput:hdmi?port=3'',
                    i_type := Some SourceType_INPUT\<rparr>),
        (''tv:dvbt?trip=1.2.3'',
         blank_item\<lparr>i_title := Some ''24'', i_uri := Some ''tv:dvbt?trip=1.2.3'',
                    i_dispNum := Some ''7'', i_type := Some SourceType_CHANNEL\<rparr>)]\<rparr>"

text \<open>
  Two labelled inputs, the raw title of the first being the label of the second, which is
  playing; and a labelled channel that is playing.
\<close>

definition console_item :: item where
  "console_item =
     blank_item\<lparr>i_title := Some ''HDMI 1'', i_label := Some ''Game Console'',
                i_uri := Some ''extInput:hdmi?port=1'', i_type := Some SourceType_INPUT\<rparr>"

definition bluray_item :: item where
  "bluray_item =
     blank_item\<lparr>i_title := Some ''Game Console'', i_label := Some ''Blu-ray'',
                i_uri := Some ''extInput:hdmi?port=2'', i_type := Some SourceType_INPUT\<rparr>"

definition console_coordinator :: coordinator where
  "console_coordinator =
     example_coordinator\<lparr>source_map :=
       [(''extInput:hdmi?port=2'', bluray_item), (''extInput:hdmi?port=1'', console_item)]\<rparr>"

definition console_env :: env where
  "console_env =
     idle_env\<lparr>rsp_playing_info :=
       (\<lambda>h. Inr (no_playing_info\<lparr>p_uri := Some ''extInput:hdmi?port=1'',
                                   p_title := Some ''HDMI 1''\<rparr>))\<rparr>"

definition favourite_item :: item where
  "favourite_item =
     blank_item\<lparr>i_title := Some ''NewsCh'', i_label := Some ''Favourite'',
                i_uri := Some ''tv:dvbt?trip=1.2.3'', i_dispNum := Some ''5''\<rparr>"

definition favourite_env :: env where
  "favourite_env =
     idle_env\<lparr>rsp_items := (\<lambda>h. case last h of
                                   Get_content_list_all k \<Rightarrow> Inr [favourite_item]
                                 | _ \<Rightarrow> Inr []),
              rsp_playing_info :=
                (\<lambda>h. Inr (tv_playing_info\<lparr>p_uri := Some ''tv:dvbt?trip=1.2.3''\<rparr>))\<rparr>"

definition favourite_coordinator :: coordinator where
  "favourite_coordinator = snd (async_update_sources favourite_env example_coordinator)"

section \<open>Properties\<close>

subsection \<open>Playback state\<close>

text \<open>
  C6. Whatever the snapshot held before, an empty now-playing payload leaves channel,
  content id and source unset, the title at the fixed label and the content type at APP;
  no uri branch is entered, so nothing else of the payload is read.
\<close>

theorem empty_payload_resets:
  assumes "rsp_playing_info cl (calls s @ [Get_playing_info]) = Inr p"
    and "playing_info_empty p"
  shows "async_update_playing cl s =
     (Inr (), s\<lparr>calls := calls s @ [Get_playing_info],
                media_title := Some ''Smart TV'', media_uri := None, media_duration := None,
                media_channel := None, media_content_id := None,
                media_content_type := Some MediaType_APP, source := None,
                media_position := None, media_position_updated_at := None\<rparr>)"
  using assms
  by (simp add: async_update_playing_def client_call_def Let_def playing_info_empty_def)

theorem empty_payload_resets_witness:
  "async_update_playing idle_env
     (example_coordinator\<lparr>media_channel := Some ''NewsCh'', media_content_id := Some ''5'',
        media_content_type := Some MediaType_CHANNEL, source := Some ''HDMI 1''\<rparr>) =
   (Inr (), example_coordinator\<lparr>calls := [Get_playing_info], media_title := Some ''Smart TV'',
              media_content_type := Some MediaType_APP\<rparr>)"
  using empty_payload_resets [of idle_env
     "example_coordinator\<lparr>media_channel := Some ''NewsCh'', media_content_id := Some ''5'',
        media_content_type := Some MediaType_CHANNEL, source := Some ''HDMI 1''\<rparr>" no_playing_info]
  by (simp add: idle_env_def example_coordinator_def init_coordinator_def no_playing_info_def
      playing_info_empty_def)

text \<open>
  C7, as the code has it. A payload whose uri starts with \<open>tv\<close> and whose start
  timestamp, if it has one, is read without error: the content id is the display number,
  the title is the program title when that is present and not empty and the display
  number otherwise, the channel is the payload title when that is present and not empty
  and the display number otherwise, the content type is CHANNEL. The witness runs the
  payload of the specification and one without program title and with an empty title.
\<close>

theorem tv_payload_derivation:
  assumes "rsp_playing_info cl (calls s @ [Get_playing_info]) = Inr p"
    and "p_uri p = Some u" and "prefix ''tv'' u"
    and "start_ok cl p"
  shows "fst (async_update_playing cl s) = Inr ()
    \<and> media_content_id (snd (async_update_playing cl s)) = p_dispNum p
    \<and> media_title (snd (async_update_playing cl s))
        = (case p_programTitle p of
             None \<Rightarrow> p_dispNum p
           | Some t \<Rightarrow> if t = [] then p_dispNum p else Some t)
    \<and> media_channel (snd (async_update_playing cl s))
        = (case p_title p of
             None \<Rightarrow> p_dispNum p
           | Some t \<Rightarrow> if t = [] then p_dispNum p else Some t)
    \<and> media_content_type (snd (async_update_playing cl s)) = Some MediaType_CHANNEL"
proof -
  from assms(3) have ne: "u \<noteq> []" and nx: "\<not> prefix ''extInput'' u"
    by (auto simp: prefix_def)
  from assms(2) have nonempty: "\<not> playing_info_empty p"
    by (simp add: playing_info_empty_def)
  show ?thesis
    using assms ne nx nonempty
    by (auto simp: async_update_playing_def client_call_def Let_def starts_with_def truthy_def
        py_or_def start_ok_def split: option.splits)
qed

theorem tv_payload_derivation_witness:
  "fst (async_update_playing (idle_env\<lparr>rsp_playing_info := (\<lambda>h. Inr tv_playing_info)\<rparr>)
          example_coordinator) = Inr ()
   \<and> media_content_id (snd (async_update_playing
        (idle_env\<lparr>rsp_playing_info := (\<lambda>h. Inr tv_playing_info)\<rparr>) example_coordinator)) = Some ''5''
   \<and> media_title (snd (async_update_playing
        (idle_env\<lparr>rsp_playing_info := (\<lambda>h. Inr tv_playing_info)\<rparr>) example_coordinator))
       = Some ''Evening News''
   \<and> media_channel (snd (async_update_playing
        (idle_env\<lparr>rsp_playing_info := (\<lambda>h. Inr tv_playing_info)\<rparr>) example_coordinator))
       = Some ''NewsCh''
   \<and> media_content_type (snd (async_update_playing
        (idle_env\<lparr>rsp_playing_info := (\<lambda>h. Inr tv_playing_info)\<rparr>) example_coordinator))
       = Some MediaType_CHANNEL
   \<and> media_title (snd (async_update_playing
        (idle_env\<lparr>rsp_playing_info := (\<lambda>h. Inr tv_untitled_info)\<rparr>) example_coordinator))
       = Some ''5''
   \<and> media_channel (snd (async_update_playing
        (idle_env\<lparr>rsp_playing_info := (\<lambda>h. Inr tv_untitled_info)\<rparr>) example_coordinator))
       = Some ''5''"
  using tv_payload_derivation [of "idle_env\<lparr>rsp_playing_info := (\<lambda>h. Inr tv_playing_info)\<rparr>"
      example_coordinator tv_playing_info "''tv:dvbt''"]
    tv_payload_derivation [of "idle_env\<lparr>rsp_playing_info := (\<lambda>h. Inr tv_untitled_info)\<rparr>"
      example_coordinator tv_untitled_info "''tv:dvbt''"]
  by (simp add: idle_env_def tv_playing_info_def tv_untitled_info_def no_playing_info_def
      start_ok_def)

text \<open>
  C7 as stated fails for a payload whose start timestamp is malformed: the timestamp is
  read before the uri is looked at, \<^verbatim>\<open>datetime.fromisoformat\<close> raises ValueError, and
  the content id, the channel and the content type stay unset.
\<close>

theorem tv_payload_derivation_counterexample:
  "p_uri tv_malformed_start_info = Some ''tv:dvbt''
   \<and> p_dispNum tv_malformed_start_info = Some ''5''
   \<and> async_update_playing (idle_env\<lparr>rsp_playing_info := (\<lambda>h. Inr tv_malformed_start_info)\<rparr>)
        example_coordinator
     = (Inl (ValueError (Invalid_isoformat ''tomorrow'')),
        example_coordinator\<lparr>calls := [Get_playing_info], media_title := Some ''NewsCh'',
          media_uri := Some ''tv:dvbt''\<rparr>)
   \<and> media_content_id (example_coordinator\<lparr>calls := [Get_playing_info],
          media_title := Some ''NewsCh'', media_uri := Some ''tv:dvbt''\<rparr>) = None
   \<and> media_content_type (example_coordinator\<lparr>calls := [Get_playing_info],
          media_title := Some ''NewsCh'', media_uri := Some ''tv:dvbt''\<rparr>) = None"
  by (simp add: async_update_playing_def client_call_def idle_env_def
      tv_malformed_start_info_def tv_playing_info_def no_playing_info_def
      example_coordinator_def init_coordinator_def)

subsection \<open>Volume\<close>

text \<open>
  C8. A volume payload without a volume value leaves level, mute and target as they were.
  With a value \<open>v\<close> the level becomes \<open>v / 100\<close>, which lies between 0 and 1 for
  \<open>v\<close> between 0 and 100, mute becomes the payload's mute or else false, the target the
  payload's target.
\<close>

theorem volume_refresh:
  assumes "rsp_volume_info cl (calls s @ [Get_volume_info]) = Inr vi"
  shows "async_update_volume cl s =
     (Inr (),
      (case v_volume vi of
         None \<Rightarrow> s\<lparr>calls := calls s @ [Get_volume_info]\<rparr>
       | Some v \<Rightarrow>
           s\<lparr>calls := calls s @ [Get_volume_info],
             volume_level := Some (real_of_int v / 100),
             volume_muted := (case v_mute vi of None \<Rightarrow> False | Some m \<Rightarrow> m),
             volume_target := v_target vi\<rparr>))
    \<and> (case v_volume vi of
          None \<Rightarrow>
            volume_level (snd (async_update_volume cl s)) = volume_level s
            \<and> volume_muted (snd (async_update_volume cl s)) = volume_muted s
            \<and> volume_target (snd (async_update_volume cl s)) = volume_target s
        | Some v \<Rightarrow>
            0 \<le> v \<and> v \<le> 100 \<longrightarrow>
              0 \<le> real_of_int v / 100 \<and> real_of_int v / 100 \<le> (1::real))"
  using assms
  by (simp add: async_update_volume_def client_call_def Let_def split: option.splits)

theorem volume_refresh_witness:
  "async_update_volume (idle_env\<lparr>rsp_volume_info := (\<lambda>h. Inr \<lparr>v_volume = Some 37, v_mute = None, v_target = Some ''speaker''\<rparr>)\<rparr>)
      (example_coordinator\<lparr>volume_muted := True\<rparr>) =
     (Inr (), example_coordinator\<lparr>calls := [Get_volume_info], volume_level := Some (37 / 100),
        volume_muted := False, volume_target := Some ''speaker''\<rparr>)
   \<and> async_update_volume idle_env
        (example_coordinator\<lparr>volume_level := Some (1 / 2), volume_muted := True,
           volume_target := Some ''speaker''\<rparr>) =
     (Inr (), example_coordinator\<lparr>volume_level := Some (1 / 2), volume_muted := True,
           volume_target := Some ''speaker'', calls := [Get_volume_info]\<rparr>)"
  using volume_refresh [of "idle_env\<lparr>rsp_volume_info := (\<lambda>h. Inr \<lparr>v_volume = Some 37, v_mute = None, v_target = Some ''speaker''\<rparr>)\<rparr>"
      "example_coordinator\<lparr>volume_muted := True\<rparr>" "\<lparr>v_volume = Some 37, v_mute = None, v_target = Some ''speaker''\<rparr>"]
    volume_refresh [of idle_env "example_coordinator\<lparr>volume_level := Some (1 / 2), volume_muted := True,
           volume_target := Some ''speaker''\<rparr>" no_volume_info]
  by (simp add: idle_env_def example_coordinator_def init_coordinator_def no_volume_info_def)

subsection \<open>The refresh cycle\<close>

text \<open>\<^verbatim>\<open>_sources_extend\<close> writes \<open>source_map\<close> and \<open>source_list\<close> only.\<close>

lemma sources_extend_step_fields:
  "\<exists>m l. sources_extend_step ty add s item = s\<lparr>source_map := m, source_list := l\<rparr>"
proof -
  have "sources_extend_step ty add s item =
          s\<lparr>source_map := source_map (sources_extend_step ty add s item),
            source_list := source_list (sources_extend_step ty add s item)\<rparr>"
    by (simp add: sources_extend_step_def Let_def split: option.splits)
  then show ?thesis by blast
qed

lemma foldl_sources_extend_step_fields:
  "\<exists>m l. foldl (sources_extend_step ty add) s xs = s\<lparr>source_map := m, source_list := l\<rparr>"
proof (induction xs arbitrary: s)
  case Nil
  have "s = s\<lparr>source_map := source_map s, source_list := source_list s\<rparr>" by simp
  then show ?case by (metis foldl_Nil)
next
  case (Cons x xs)
  obtain m l where a: "sources_extend_step ty add s x = s\<lparr>source_map := m, source_list := l\<rparr>"
    using sources_extend_step_fields by blast
  from Cons [of "s\<lparr>source_map := m, source_list := l\<rparr>"] obtain m' l' where
    "foldl (sources_extend_step ty add) (s\<lparr>source_map := m, source_list := l\<rparr>) xs
       = s\<lparr>source_map := m', source_list := l'\<rparr>" by auto
  with a show ?case by auto
qed

lemma sources_extend_fields:
  "\<exists>m l. sources_extend xs ty add sort_by s = s\<lparr>source_map := m, source_list := l\<rparr>"
  unfolding sources_extend_def Let_def by (rule foldl_sources_extend_step_fields)

lemma sources_extend_calls [simp]: "calls (sources_extend xs ty add sort_by s) = calls s"
  and sources_extend_skipped [simp]:
    "skipped_updates (sources_extend xs ty add sort_by s) = skipped_updates s"
  using sources_extend_fields [of xs ty add sort_by s] by auto

text \<open>
  A device-API error leaves each part of the cycle through its last client call, and no
  part but the power query touches \<open>skipped_updates\<close>.
\<close>

lemma async_update_sources_raise:
  assumes "async_update_sources cl s = (Inl (Bravia e), s1)"
  shows "skipped_updates s1 = skipped_updates s \<and> calls s1 \<noteq> [] \<and> \<not> before_reset (last (calls s1))"
  using assms
  by (auto simp: async_update_sources_def client_call_def Let_def before_reset_def
      split: sum.splits)

lemma async_update_sources_ok:
  assumes "async_update_sources cl s = (Inr u, s1)"
  shows "skipped_updates s1 = skipped_updates s"
  using assms
  by (auto simp: async_update_sources_def client_call_def Let_def split: sum.splits)

lemma async_update_volume_raise:
  assumes "async_update_volume cl s = (Inl (Bravia e), s1)"
  shows "skipped_updates s1 = skipped_updates s \<and> calls s1 \<noteq> [] \<and> \<not> before_reset (last (calls s1))"
  using assms
  by (auto simp: async_update_volume_def client_call_def Let_def before_reset_def
      split: sum.splits option.splits)

lemma async_update_volume_ok:
  assumes "async_update_volume cl s = (Inr u, s1)"
  shows "skipped_updates s1 = skipped_updates s"
  using assms
  by (auto simp: async_update_volume_def client_call_def Let_def split: sum.splits option.splits)

lemma async_update_playing_raise:
  assumes "async_update_playing cl s = (Inl (Bravia e), s1)"
  shows "skipped_updates s1 = skipped_updates s \<and> calls s1 \<noteq> [] \<and> \<not> before_reset (last (calls s1))"
proof (cases "rsp_playing_info cl (calls s @ [Get_playing_info])")
  case (Inl err)
  with assms show ?thesis
    by (auto simp: async_update_playing_def client_call_def Let_def before_reset_def)
next
  case (Inr p)
  with assms have False
    by (simp add: async_update_playing_def client_call_def Let_def
        split: option.splits if_splits sum.splits)
  then show ?thesis ..
qed

lemma update_queries_raise:
  assumes "update_queries cl s = (Inl (Bravia e), s1)"
  shows "skipped_updates s1 = skipped_updates s \<and> calls s1 \<noteq> [] \<and> \<not> before_reset (last (calls s1))"
proof (cases "if source_map s = [] then async_update_sources cl s else (Inr (), s)")
  case (Pair r sa)
  show ?thesis
  proof (cases r)
    case (Inl x)
    with Pair assms have "async_update_sources cl s = (Inl (Bravia e), s1)"
      by (auto simp: update_queries_def split: if_splits)
    then show ?thesis by (rule async_update_sources_raise)
  next
    case (Inr u)
    with Pair have sa: "skipped_updates sa = skipped_updates s"
      by (auto split: if_splits dest: async_update_sources_ok)
    obtain r2 sb where v: "async_update_volume cl sa = (r2, sb)" by (cases "async_update_volume cl sa")
    show ?thesis
    proof (cases r2)
      case (Inl x)
      with Pair Inr v assms have "async_update_volume cl sa = (Inl (Bravia e), s1)"
        by (simp add: update_queries_def)
      from async_update_volume_raise [OF this] sa show ?thesis by simp
    next
      case (Inr u2)
      with v have sb: "skipped_updates sb = skipped_updates sa"
        by (auto dest: async_update_volume_ok)
      from Pair \<open>r = Inr u\<close> v Inr assms have "async_update_playing cl sb = (Inl (Bravia e), s1)"
        by (simp add: update_queries_def)
      from async_update_playing_raise [OF this] sa sb show ?thesis by simp
    qed
  qed
qed

lemma update_try_raise:
  assumes "update_try cl s = (Inl (Bravia e), s1)"
  shows "calls s1 \<noteq> [] \<and>
         skipped_updates s1 = (if before_reset (last (calls s1)) then skipped_updates s else 0)"
proof (cases "update_connect cl s")
  case (Pair r sa)
  show ?thesis
  proof (cases r)
    case (Inl x)
    with Pair assms have "update_connect cl s = (Inl (Bravia e), s1)"
      by (simp add: update_try_def)
    then show ?thesis
      by (auto simp: update_connect_def client_call_def Let_def before_reset_def
          split: if_splits sum.splits exn.splits BraviaError.splits)
  next
    case (Inr u)
    with Pair have sa: "skipped_updates sa = skipped_updates s"
      by (auto simp: update_connect_def client_call_def Let_def
          split: if_splits sum.splits exn.splits BraviaError.splits)
    show ?thesis
    proof (cases "rsp_power_status cl (calls sa @ [Get_power_status])")
      case (Inl err)
      with Pair \<open>r = Inr u\<close> assms sa show ?thesis
        by (auto simp: update_try_def client_call_def Let_def before_reset_def)
    next
      case pw: (Inr power_status)
      let ?s3 = "sa\<lparr>calls := calls sa @ [Get_power_status],
                    is_on := (power_status = ''active''), skipped_updates := 0\<rparr>"
      show ?thesis
      proof (cases "system_info sa = []")
        case True
        show ?thesis
        proof (cases "rsp_system_info cl (calls ?s3 @ [Get_system_info])")
          case (Inl err)
          with Pair \<open>r = Inr u\<close> assms pw True show ?thesis
            by (auto simp: update_try_def client_call_def Let_def before_reset_def)
        next
          case (Inr info)
          let ?s5 = "?s3\<lparr>calls := calls ?s3 @ [Get_system_info], system_info := info\<rparr>"
          from Pair \<open>r = Inr u\<close> assms pw True Inr
          have "is_on ?s5" and "update_queries cl ?s5 = (Inl (Bravia e), s1)"
            by (auto simp: update_try_def client_call_def Let_def split: if_splits)
          from update_queries_raise [OF this(2)] show ?thesis by simp
        qed
      next
        case False
        from Pair \<open>r = Inr u\<close> assms pw False
        have "update_queries cl ?s3 = (Inl (Bravia e), s1)"
          by (auto simp: update_try_def client_call_def Let_def split: if_splits)
        from update_queries_raise [OF this] show ?thesis by simp
      qed
    qed
  qed
qed

text \<open>
  C2. A cycle in which BraviaNotFound is raised, \<open>s1\<close> being the coordinator at that
  moment: below ten skipped updates the cycle returns normally with \<open>connected\<close> false
  and one more skipped update, from ten on it raises UpdateFailed. The count at that
  moment is the count at the start of the cycle when connecting or the power query raised,
  and zero afterwards. The witness runs the counts 9 and 10.
\<close>

theorem not_found_retry_budget:
  assumes "update_try cl s = (Inl (Bravia BraviaNotFound), s1)"
  shows "async_update_data cl s =
           (if skipped_updates s1 < 10
            then (Inr (), s1\<lparr>connected := False, skipped_updates := skipped_updates s1 + 1\<rparr>)
            else (Inl UpdateFailed, s1))
    \<and> skipped_updates s1 = (if before_reset (last (calls s1)) then skipped_updates s else 0)"
  using assms update_try_raise [OF assms]
  by (simp add: async_update_data_def)

theorem not_found_retry_budget_witness:
  "async_update_data not_found_env (example_coordinator\<lparr>connected := True, skipped_updates := 9\<rparr>)
     = (Inr (), example_coordinator\<lparr>connected := False, skipped_updates := 10,
                  calls := [Get_power_status]\<rparr>)
   \<and> async_update_data not_found_env (example_coordinator\<lparr>connected := True, skipped_updates := 10\<rparr>)
     = (Inl UpdateFailed, example_coordinator\<lparr>connected := True, skipped_updates := 10,
                  calls := [Get_power_status]\<rparr>)"
proof -
  have a: "update_try not_found_env (example_coordinator\<lparr>connected := True, skipped_updates := 9\<rparr>)
      = (Inl (Bravia BraviaNotFound),
         example_coordinator\<lparr>connected := True, skipped_updates := 9, calls := [Get_power_status]\<rparr>)"
    by (simp add: update_try_def update_connect_def client_call_def not_found_env_def idle_env_def
        example_coordinator_def init_coordinator_def)
  have b: "update_try not_found_env (example_coordinator\<lparr>connected := True, skipped_updates := 10\<rparr>)
      = (Inl (Bravia BraviaNotFound),
         example_coordinator\<lparr>connected := True, skipped_updates := 10, calls := [Get_power_status]\<rparr>)"
    by (simp add: update_try_def update_connect_def client_call_def not_found_env_def idle_env_def
        example_coordinator_def init_coordinator_def)
  show ?thesis
    using not_found_retry_budget [OF a] not_found_retry_budget [OF b]
    by (simp add: example_coordinator_def init_coordinator_def)
qed

subsection \<open>Commands\<close>

text \<open>
  C9. The mute command does not read its argument: asked to mute or to unmute, it issues
  the same single toggle call and ends in the same state.
\<close>

theorem mute_argument_ignored:
  "run_command cl (Async_volume_mute a) s = run_command cl (Async_volume_mute b) s
   \<and> calls (snd (run_command cl (Async_volume_mute a) s)) = calls s @ [Volume_mute]"
  by (simp add: run_command_def catch_braviatv_errors_def client_call_def
      async_request_refresh_def Let_def split: sum.splits exn.splits)



text \<open>A command body changes nothing of the coordinator but the calls issued.\<close>

lemma client_call_trace: "\<exists>cs. snd (client_call r c s) = s\<lparr>calls := calls s @ cs\<rparr>"
  by (auto simp: client_call_def Let_def split: sum.splits)

lemma async_source_start_trace:
  "\<exists>cs. snd (async_source_start cl u ty s) = s\<lparr>calls := calls s @ cs\<rparr>"
  by (simp add: async_source_start_def client_call_trace)

lemma trace_refl: "\<exists>cs. s = s\<lparr>calls := calls s @ cs\<rparr>"
  by (rule exI [of _ "[]"]) simp

lemma async_source_find_trace:
  "\<exists>cs. snd (async_source_find cl q ty s) = s\<lparr>calls := calls s @ cs\<rparr>"
  by (auto simp: async_source_find_def Let_def async_source_start_trace trace_refl split: scan.splits)

lemma send_command_codes_trace:
  "\<exists>cs. snd (send_command_codes cl cmds s) = s\<lparr>calls := calls s @ cs\<rparr>"
proof (induction cmds arbitrary: s)
  case Nil
  show ?case by (simp add: trace_refl)
next
  case (Cons cmd rest)
  show ?case
  proof (cases "rsp_send_command cl (calls s @ [Send_command cmd])")
    case (Inl e)
    then show ?thesis by (auto simp: client_call_def Let_def)
  next
    case (Inr response)
    let ?s1 = "s\<lparr>calls := calls s @ [Send_command cmd]\<rparr>"
    show ?thesis
    proof (cases response)
      case True
      from Cons.IH [of ?s1] obtain cs where
        "snd (send_command_codes cl rest ?s1) = ?s1\<lparr>calls := calls ?s1 @ cs\<rparr>" by blast
      with Inr True show ?thesis
        by (intro exI [of _ "[Send_command cmd] @ cs"]) (simp add: client_call_def Let_def)
    next
      case False
      let ?s2 = "?s1\<lparr>calls := calls ?s1 @ [Get_command_list]\<rparr>"
      show ?thesis
      proof (cases "rsp_command_list cl (calls ?s1 @ [Get_command_list])")
        case (Inl e)
        with Inr False show ?thesis
          by (intro exI [of _ "[Send_command cmd, Get_command_list]"])
             (simp add: client_call_def Let_def)
      next
        case (Inr commands)
        from Cons.IH [of ?s2] obtain cs where
          "snd (send_command_codes cl rest ?s2) = ?s2\<lparr>calls := calls ?s2 @ cs\<rparr>" by blast
        with Inr \<open>rsp_send_command cl (calls s @ [Send_command cmd]) = Inr response\<close> False
        show ?thesis
          by (intro exI [of _ "[Send_command cmd, Get_command_list] @ cs"])
             (simp add: client_call_def Let_def)
      qed
    qed
  qed
qed

lemma send_command_repeats_trace:
  "\<exists>cs. snd (send_command_repeats cl cmds n s) = s\<lparr>calls := calls s @ cs\<rparr>"
proof (induction n arbitrary: s)
  case 0
  show ?case by (simp add: trace_refl)
next
  case (Suc n)
  obtain cs where a: "snd (send_command_codes cl cmds s) = s\<lparr>calls := calls s @ cs\<rparr>"
    using send_command_codes_trace by blast
  show ?case
  proof (cases "fst (send_command_codes cl cmds s)")
    case (Inl e)
    with a show ?thesis
      by (cases "send_command_codes cl cmds s") auto
  next
    case (Inr u)
    from Suc.IH [of "s\<lparr>calls := calls s @ cs\<rparr>"] obtain ds where
      "snd (send_command_repeats cl cmds n (s\<lparr>calls := calls s @ cs\<rparr>))
        = s\<lparr>calls := calls s @ (cs @ ds)\<rparr>" by auto
    with a Inr show ?thesis
      by (cases "send_command_codes cl cmds s") auto
  qed
qed

lemma command_body_trace:
  "\<exists>cs. snd (command_body cl c s) = s\<lparr>calls := calls s @ cs\<rparr>"
  by (cases c)
     (simp_all add: client_call_trace async_source_find_trace send_command_repeats_trace trace_refl)

lemma command_body_refresh_requests:
  "refresh_requests (snd (command_body cl c s)) = refresh_requests s"
proof -
  obtain cs where "snd (command_body cl c s) = s\<lparr>calls := calls s @ cs\<rparr>"
    using command_body_trace by blast
  then show ?thesis by simp
qed

text \<open>
  C3. For every decorated command and every client: when the body returns, or raises a
  device-API error, the command returns normally, in the state the body left, with
  exactly one more refresh request.
\<close>

theorem command_errors_contained:
  assumes "fst (command_body cl c s) = Inr () \<or> (\<exists>err. fst (command_body cl c s) = Inl (Bravia err))"
  shows "run_command cl c s =
     (Inr (), (snd (command_body cl c s))\<lparr>refresh_requests := Suc (refresh_requests s)\<rparr>)"
  using assms command_body_refresh_requests [of cl c s]
  by (cases "command_body cl c s")
     (auto simp: run_command_def catch_braviatv_errors_def async_request_refresh_def)

theorem command_errors_contained_witness:
  "run_command failing_env Async_turn_on example_coordinator
     = (Inr (), example_coordinator\<lparr>calls := [Turn_on], refresh_requests := 1\<rparr>)
   \<and> run_command idle_env (Async_send_command [''Home'', ''Up''] 2) example_coordinator
     = (Inr (), example_coordinator\<lparr>calls := [Send_command ''Home'', Send_command ''Up'',
           Send_command ''Home'', Send_command ''Up''], refresh_requests := 1\<rparr>)"
proof -
  have a: "command_body failing_env Async_turn_on example_coordinator
      = (Inl (Bravia BraviaConnectionError), example_coordinator\<lparr>calls := [Turn_on]\<rparr>)"
    by (simp add: failing_env_def idle_env_def client_call_def example_coordinator_def
        init_coordinator_def)
  have b: "command_body idle_env (Async_send_command [''Home'', ''Up''] 2) example_coordinator
      = (Inr (), example_coordinator\<lparr>calls := [Send_command ''Home'', Send_command ''Up'',
           Send_command ''Home'', Send_command ''Up'']\<rparr>)"
    by (simp add: idle_env_def client_call_def example_coordinator_def init_coordinator_def
        numeral_2_eq_2)
  have ha: "fst (command_body failing_env Async_turn_on example_coordinator) = Inr ()
      \<or> (\<exists>err. fst (command_body failing_env Async_turn_on example_coordinator)
                 = Inl (Bravia err))"
    by (simp only: a fst_conv) simp
  have hb: "fst (command_body idle_env (Async_send_command [''Home'', ''Up''] 2)
                   example_coordinator) = Inr ()
      \<or> (\<exists>err. fst (command_body idle_env (Async_send_command [''Home'', ''Up''] 2)
                        example_coordinator) = Inl (Bravia err))"
    by (simp only: b fst_conv) simp
  have ra: "refresh_requests example_coordinator = 0"
    by (simp add: example_coordinator_def init_coordinator_def)
  show ?thesis
    using command_errors_contained [OF ha] command_errors_contained [OF hb]
    by (simp only: a b snd_conv ra) simp
qed

text \<open>A ValueError of source resolution is raised before any client call.\<close>

lemma async_source_start_error:
  "fst (async_source_start cl u ty s) = Inl e \<Longrightarrow> \<exists>err. e = Bravia err"
  by (auto simp: async_source_start_def client_call_def Let_def split: sum.splits if_splits)

lemma async_source_find_value_error:
  assumes "fst (async_source_find cl q ty s) = Inl (ValueError v)"
  shows "async_source_find cl q ty s = (Inl (ValueError v), s)"
  using assms
  by (auto simp: async_source_find_def Let_def split: scan.splits if_splits
      dest: async_source_start_error)

text \<open>
  C10. \<^verbatim>\<open>async_play_media\<close> with a media type other than APP and CHANNEL raises
  ValueError to the caller, in the unchanged state: no client call, no refresh request.
  The same holds when the media type is fine and source resolution raises its not-found
  ValueError.
\<close>

theorem play_media_value_error_propagates:
  "(media_type \<notin> set [MediaType_APP, MediaType_CHANNEL] \<longrightarrow>
      run_command cl (Async_play_media media_type media_id) s
        = (Inl (ValueError (Invalid_media_type media_type)), s))
   \<and> (media_type \<in> set [MediaType_APP, MediaType_CHANNEL]
        \<and> fst (async_source_find cl media_id media_type s)
            = Inl (ValueError (Not_found media_type media_id)) \<longrightarrow>
      run_command cl (Async_play_media media_type media_id) s
        = (Inl (ValueError (Not_found media_type media_id)), s))"
proof (intro conjI impI)
  assume "media_type \<notin> set [MediaType_APP, MediaType_CHANNEL]"
  then show "run_command cl (Async_play_media media_type media_id) s
        = (Inl (ValueError (Invalid_media_type media_type)), s)"
    by (simp add: run_command_def catch_braviatv_errors_def)
next
  assume a: "media_type \<in> set [MediaType_APP, MediaType_CHANNEL]
        \<and> fst (async_source_find cl media_id media_type s)
            = Inl (ValueError (Not_found media_type media_id))"
  then have "async_source_find cl media_id media_type s
      = (Inl (ValueError (Not_found media_type media_id)), s)"
    by (simp add: async_source_find_value_error)
  with a show "run_command cl (Async_play_media media_type media_id) s
        = (Inl (ValueError (Not_found media_type media_id)), s)"
    by (auto simp: run_command_def catch_braviatv_errors_def)
qed

theorem play_media_value_error_propagates_witness:
  "run_command idle_env (Async_play_media ''music'' ''Netflix'') example_coordinator
     = (Inl (ValueError (Invalid_media_type ''music'')), example_coordinator)
   \<and> run_command idle_env (Async_play_media MediaType_APP ''Netflix'') example_coordinator
     = (Inl (ValueError (Not_found MediaType_APP ''Netflix'')), example_coordinator)"
proof -
  have a: "''music'' \<notin> set [MediaType_APP, MediaType_CHANNEL]"
    by (simp add: MediaType_APP_def MediaType_CHANNEL_def)
  have b: "fst (async_source_find idle_env ''Netflix'' MediaType_APP example_coordinator)
      = Inl (ValueError (Not_found MediaType_APP ''Netflix''))"
    by (simp add: async_source_find_def example_coordinator_def init_coordinator_def truthy_def)
  show ?thesis
    using play_media_value_error_propagates [of "''music''" idle_env "''Netflix''" example_coordinator]
      play_media_value_error_propagates [of MediaType_APP idle_env "''Netflix''" example_coordinator]
      a b
    by simp
qed

subsection \<open>The source catalog\<close>

text \<open>The loop body of \<^verbatim>\<open>_sources_extend\<close>, by the display title of the item.\<close>

lemma item_get_simps [simp]:
  "item_get d ''title'' = i_title d" "item_get d ''label'' = i_label d"
  "item_get d ''uri'' = i_uri d" "item_get d ''dispNum'' = i_dispNum d"
  by (simp_all add: item_get_def)

lemma sources_extend_step_title:
  "sources_extend_step ty add s i =
     (case (display_title (enable_user_labels s) i, i_uri i) of
        (Some t, Some u) \<Rightarrow>
          if t = [] \<or> u = [] then s
          else
            let s1 = s\<lparr>source_map := AList.update u (i\<lparr>i_type := Some ty\<rparr>) (source_map s)\<rparr>
            in if add \<and> t \<notin> set (source_list s1)
               then s1\<lparr>source_list := source_list s1 @ [t]\<rparr>
               else s1
      | _ \<Rightarrow> s)"
  by (simp add: sources_extend_step_def display_title_def truthy_def Let_def
      split: option.splits)

lemma sources_extend_step_usable:
  assumes "usable (enable_user_labels s) i"
    and "display_title (enable_user_labels s) i = Some t" and "i_uri i = Some u"
  shows "sources_extend_step ty add s i =
     s\<lparr>source_map := AList.update u (i\<lparr>i_type := Some ty\<rparr>) (source_map s),
       source_list := (if add \<and> t \<notin> set (source_list s) then source_list s @ [t]
                       else source_list s)\<rparr>"
proof -
  from assms have "t \<noteq> []" and "u \<noteq> []"
    by (simp_all add: usable_def truthy_def)
  with assms(2,3) show ?thesis
    by (simp add: sources_extend_step_title Let_def)
qed

lemma sources_extend_step_unusable:
  assumes "\<not> usable (enable_user_labels s) i"
  shows "sources_extend_step ty add s i = s"
proof (cases "display_title (enable_user_labels s) i")
  case None
  then show ?thesis by (simp add: sources_extend_step_title)
next
  case (Some t)
  show ?thesis
  proof (cases "i_uri i")
    case None
    with Some show ?thesis by (simp add: sources_extend_step_title)
  next
    case u: (Some u)
    with Some assms have "t = [] \<or> u = []"
      by (auto simp: usable_def truthy_def)
    with Some u show ?thesis by (simp add: sources_extend_step_title)
  qed
qed

lemma usable_cases:
  obtains (unusable) "\<not> usable labels i"
  | (usable) t u where "usable labels i" "display_title labels i = Some t" "i_uri i = Some u"
      "t \<noteq> []" "u \<noteq> []"
  by (cases "usable labels i") (auto simp: usable_def truthy_def split: option.splits)

lemma sources_extend_step_labels [simp]:
  "enable_user_labels (sources_extend_step ty add s i) = enable_user_labels s"
  using sources_extend_step_fields [of ty add s i] by auto

text \<open>
  What one run of \<^verbatim>\<open>_sources_extend\<close> keeps and adds: the keys stay distinct and
  gain the uris of the usable items, the display list stays free of duplicates and, when
  items are added to it, gains their display titles.
\<close>

lemma foldl_step_inv:
  "distinct (map fst (source_map s)) \<Longrightarrow> distinct (source_list s) \<Longrightarrow>
   (let s' = foldl (sources_extend_step ty add) s xs in
    distinct (map fst (source_map s')) \<and> distinct (source_list s')
    \<and> enable_user_labels s' = enable_user_labels s
    \<and> fst ` set (source_map s') = fst ` set (source_map s) \<union> usable_uris (enable_user_labels s) xs
    \<and> (if add then set (source_list s') = set (source_list s) \<union> usable_titles (enable_user_labels s) xs
        else source_list s' = source_list s))"
proof (induction xs arbitrary: s)
  case Nil
  then show ?case by (simp add: usable_uris_def usable_titles_def)
next
  case (Cons i xs)
  let ?s1 = "sources_extend_step ty add s i"
  have l: "enable_user_labels ?s1 = enable_user_labels s" by simp
  have step: "distinct (map fst (source_map ?s1)) \<and> distinct (source_list ?s1)
    \<and> fst ` set (source_map ?s1) = fst ` set (source_map s) \<union> usable_uris (enable_user_labels s) [i]
    \<and> (if add then set (source_list ?s1) = set (source_list s) \<union> usable_titles (enable_user_labels s) [i]
        else source_list ?s1 = source_list s)"
  proof (cases rule: usable_cases [of "enable_user_labels s" i])
    case unusable
    with Cons.prems show ?thesis
      by (simp add: sources_extend_step_unusable usable_uris_def usable_titles_def)
  next
    case (usable t u)
    with Cons.prems show ?thesis
      by (auto simp: sources_extend_step_usable [OF usable(1-3)] usable_uris_def
          usable_titles_def distinct_update dom_update)
  qed
  have u: "usable_uris (enable_user_labels s) (i # xs)
      = usable_uris (enable_user_labels s) [i] \<union> usable_uris (enable_user_labels s) xs"
    and t: "usable_titles (enable_user_labels s) (i # xs)
      = usable_titles (enable_user_labels s) [i] \<union> usable_titles (enable_user_labels s) xs"
    by (auto simp: usable_uris_def usable_titles_def)
  from step have d1: "distinct (map fst (source_map ?s1))" and d2: "distinct (source_list ?s1)"
    by simp_all
  from Cons.IH [OF d1 d2] step show ?case
    unfolding Let_def foldl_Cons l u t
    by (auto split: if_splits)
qed

lemma usable_sort_key [simp]:
  "usable_uris labels (sort_key f xs) = usable_uris labels xs"
  "usable_titles labels (sort_key f xs) = usable_titles labels xs"
  by (simp_all add: usable_uris_def usable_titles_def)

lemma sources_extend_inv:
  assumes "distinct (map fst (source_map s))" and "distinct (source_list s)"
  shows "distinct (map fst (source_map (sources_extend xs ty add sort_by s)))"
    and "distinct (source_list (sources_extend xs ty add sort_by s))"
    and "fst ` set (source_map (sources_extend xs ty add sort_by s))
           = fst ` set (source_map s) \<union> usable_uris (enable_user_labels s) xs"
    and "add \<Longrightarrow> set (source_list (sources_extend xs ty add sort_by s))
           = set (source_list s) \<union> usable_titles (enable_user_labels s) xs"
    and "\<not> add \<Longrightarrow> source_list (sources_extend xs ty add sort_by s) = source_list s"
proof -
  define ys where "ys = (case sort_by of None \<Rightarrow> xs
     | Some k \<Rightarrow> if k = [] then xs
                 else sort_key (\<lambda>d. case item_get d k of None \<Rightarrow> [] | Some v \<Rightarrow> v) xs)"
  have e: "sources_extend xs ty add sort_by s = foldl (sources_extend_step ty add) s ys"
    by (simp add: sources_extend_def ys_def)
  have u: "usable_uris (enable_user_labels s) ys = usable_uris (enable_user_labels s) xs"
    and t: "usable_titles (enable_user_labels s) ys = usable_titles (enable_user_labels s) xs"
    by (simp_all add: ys_def split: option.splits)
  note inv = foldl_step_inv [OF assms, of ty add ys, unfolded Let_def u t, folded e]
  from inv show "distinct (map fst (source_map (sources_extend xs ty add sort_by s)))" by simp
  from inv show "distinct (source_list (sources_extend xs ty add sort_by s))" by simp
  from inv show "fst ` set (source_map (sources_extend xs ty add sort_by s))
           = fst ` set (source_map s) \<union> usable_uris (enable_user_labels s) xs" by simp
  from inv show "add \<Longrightarrow> set (source_list (sources_extend xs ty add sort_by s))
           = set (source_list s) \<union> usable_titles (enable_user_labels s) xs" by simp
  from inv show "\<not> add \<Longrightarrow> source_list (sources_extend xs ty add sort_by s) = source_list s"
    by simp
qed

lemma sources_extend_labels [simp]:
  "enable_user_labels (sources_extend xs ty add sort_by s) = enable_user_labels s"
  using sources_extend_fields [of xs ty add sort_by s] by auto

lemma usable_uris_append:
  "usable_uris labels (xs @ ys) = usable_uris labels xs \<union> usable_uris labels ys"
  by (auto simp: usable_uris_def)

lemma build_inputs_inv:
  "distinct (map fst (source_map (build_inputs inputs s)))"
  "distinct (source_list (build_inputs inputs s))"
  "fst ` set (source_map (build_inputs inputs s)) = usable_uris (enable_user_labels s) inputs"
  "set (source_list (build_inputs inputs s)) = usable_titles (enable_user_labels s) inputs"
  "enable_user_labels (build_inputs inputs s) = enable_user_labels s"
  unfolding build_inputs_def
  by (simp_all add: sources_extend_inv)

lemma build_apps_inv:
  "distinct (map fst (source_map (build_apps inputs apps s)))"
  "distinct (source_list (build_apps inputs apps s))"
  "fst ` set (source_map (build_apps inputs apps s))
     = usable_uris (enable_user_labels s) inputs \<union> usable_uris (enable_user_labels s) apps"
  "set (source_list (build_apps inputs apps s)) = usable_titles (enable_user_labels s) inputs"
  "enable_user_labels (build_apps inputs apps s) = enable_user_labels s"
  unfolding build_apps_def
  by (simp_all add: sources_extend_inv build_inputs_inv)

lemma build_channels_inv:
  "distinct (map fst (source_map (build_channels inputs apps channels s)))"
  "distinct (source_list (build_channels inputs apps channels s))"
  "fst ` set (source_map (build_channels inputs apps channels s))
     = usable_uris (enable_user_labels s) (inputs @ apps @ channels)"
  "set (source_list (build_channels inputs apps channels s))
     = usable_titles (enable_user_labels s) inputs"
  unfolding build_channels_def
  by (simp_all add: sources_extend_inv build_apps_inv usable_uris_append Un_assoc)

lemma async_update_sources_cases:
  "async_update_sources cl s =
     (case rsp_items cl (calls s @ [Get_external_status]) of
        Inl e \<Rightarrow> (Inl (Bravia e),
                   s\<lparr>source_list := [], source_map := [], calls := calls s @ [Get_external_status]\<rparr>)
      | Inr inputs \<Rightarrow>
          (case rsp_items cl (calls s @ [Get_external_status, Get_app_list]) of
             Inl e \<Rightarrow> (Inl (Bravia e),
                        (build_inputs inputs s)\<lparr>calls := calls s @ [Get_external_status, Get_app_list]\<rparr>)
           | Inr apps \<Rightarrow>
               (case rsp_items cl (calls s @ [Get_external_status, Get_app_list,
                                              Get_content_list_all ''tv'']) of
                  Inl e \<Rightarrow> (Inl (Bravia e),
                             (build_apps inputs apps s)\<lparr>calls := calls s @ [Get_external_status,
                                Get_app_list, Get_content_list_all ''tv'']\<rparr>)
                | Inr channels \<Rightarrow> (Inr (), build_channels inputs apps channels s))))"
  by (simp add: async_update_sources_def client_call_def Let_def build_inputs_def build_apps_def
      build_channels_def split: sum.splits)

text \<open>
  C4. After a catalog build, however the client answered: the uris of \<open>source_map\<close>
  are distinct and \<open>source_list\<close> has no duplicate. When the three queries succeed, the
  titles in \<open>source_list\<close> are exactly the display titles of the usable inputs, so apps
  and channels add none, and the uris of \<open>source_map\<close> are exactly those of the usable
  inputs, apps and channels. In the witness two inputs share a label.
\<close>

theorem catalog_invariants:
  "distinct (map fst (source_map (snd (async_update_sources cl s))))
   \<and> distinct (source_list (snd (async_update_sources cl s)))
   \<and> (rsp_items cl (calls s @ [Get_external_status]) = Inr inputs
        \<and> rsp_items cl (calls s @ [Get_external_status, Get_app_list]) = Inr apps
        \<and> rsp_items cl (calls s @ [Get_external_status, Get_app_list,
                                   Get_content_list_all ''tv'']) = Inr channels \<longrightarrow>
      fst (async_update_sources cl s) = Inr ()
      \<and> set (source_list (snd (async_update_sources cl s)))
          = usable_titles (enable_user_labels s) inputs
      \<and> fst ` set (source_map (snd (async_update_sources cl s)))
          = usable_uris (enable_user_labels s) (inputs @ apps @ channels))"
  unfolding async_update_sources_cases
  by (simp add: build_inputs_inv build_apps_inv build_channels_inv split: sum.splits)

theorem catalog_invariants_witness:
  "fst (async_update_sources catalog_env example_coordinator) = Inr ()
   \<and> source_list (snd (async_update_sources catalog_env example_coordinator))
       = [''Console'', ''HDMI 3'']
   \<and> map fst (source_map (snd (async_update_sources catalog_env example_coordinator)))
       = [''extInput:hdmi?port=1'', ''extInput:hdmi?port=2'', ''extInput:hdmi?port=3'',
          ''com.sony.dtv.browser'', ''com.sony.dtv.netflix'', ''tv:dvbt?trip=1.2.3'']
   \<and> set (source_list (snd (async_update_sources catalog_env example_coordinator)))
       = usable_titles True catalog_inputs"
proof -
  have l: "enable_user_labels example_coordinator"
    by (simp add: example_coordinator_def init_coordinator_def)
  have r: "rsp_items catalog_env (calls example_coordinator @ [Get_external_status])
             = Inr catalog_inputs"
    "rsp_items catalog_env (calls example_coordinator @ [Get_external_status, Get_app_list])
             = Inr catalog_apps"
    "rsp_items catalog_env (calls example_coordinator @ [Get_external_status, Get_app_list,
        Get_content_list_all ''tv'']) = Inr catalog_channels"
    by (simp_all add: catalog_env_def idle_env_def)
  have b: "async_update_sources catalog_env example_coordinator
     = (Inr (), build_channels catalog_inputs catalog_apps catalog_channels example_coordinator)"
    by (simp add: async_update_sources_cases r)
  have s: "sort_key (\<lambda>d. case item_get d ''title'' of None \<Rightarrow> [] | Some v \<Rightarrow> v) catalog_apps
      = rev catalog_apps"
    by (simp add: catalog_apps_def blank_item_def)
  have v: "source_list (build_channels catalog_inputs catalog_apps catalog_channels
             example_coordinator) = [''Console'', ''HDMI 3'']"
    "map fst (source_map (build_channels catalog_inputs catalog_apps catalog_channels
             example_coordinator))
       = [''extInput:hdmi?port=1'', ''extInput:hdmi?port=2'', ''extInput:hdmi?port=3'',
          ''com.sony.dtv.browser'', ''com.sony.dtv.netflix'', ''tv:dvbt?trip=1.2.3'']"
    unfolding build_channels_def build_apps_def build_inputs_def sources_extend_def s
    by (simp_all add: catalog_inputs_def catalog_apps_def catalog_channels_def blank_item_def
        sources_extend_step_title display_title_def truthy_def Let_def
        example_coordinator_def init_coordinator_def)
  show ?thesis
    using catalog_invariants [of catalog_env example_coordinator catalog_inputs catalog_apps
        catalog_channels] r l
    by (simp only: b v fst_conv snd_conv simp_thms)
qed

text \<open>Every catalog the build leaves is well formed.\<close>

lemma list_all_update:
  assumes "list_all P al" and "P (k, v)"
  shows "list_all P (AList.update k v al)"
  using assms by (induction al) auto

lemma sources_extend_step_well_formed:
  assumes "well_formed_catalog (enable_user_labels s) (source_map s)"
  shows "well_formed_catalog (enable_user_labels s) (source_map (sources_extend_step ty add s i))"
proof (cases rule: usable_cases [of "enable_user_labels s" i])
  case unusable
  with assms show ?thesis by (simp add: sources_extend_step_unusable)
next
  case (usable t u)
  have "display_title (enable_user_labels s) (i\<lparr>i_type := Some ty\<rparr>) = Some t"
    using usable(2) by (auto simp: display_title_def split: option.splits if_splits)
  with assms usable(5) show ?thesis
    unfolding sources_extend_step_usable [OF usable(1-3)] well_formed_catalog_def
    by (simp add: list_all_update)
qed

lemma foldl_step_well_formed:
  assumes "well_formed_catalog (enable_user_labels s) (source_map s)"
  shows "well_formed_catalog (enable_user_labels s)
           (source_map (foldl (sources_extend_step ty add) s xs))"
  using assms
proof (induction xs arbitrary: s)
  case Nil
  then show ?case by simp
next
  case (Cons i xs)
  from Cons.IH [of "sources_extend_step ty add s i"]
    sources_extend_step_well_formed [OF Cons.prems, of ty add i]
  show ?case by simp
qed

lemma sources_extend_well_formed:
  assumes "well_formed_catalog (enable_user_labels s) (source_map s)"
  shows "well_formed_catalog (enable_user_labels s)
           (source_map (sources_extend xs ty add sort_by s))"
  unfolding sources_extend_def Let_def
  by (rule foldl_step_well_formed [OF assms])

lemma build_well_formed:
  "well_formed_catalog (enable_user_labels s) (source_map (build_inputs inputs s))"
  "well_formed_catalog (enable_user_labels s) (source_map (build_apps inputs apps s))"
  "well_formed_catalog (enable_user_labels s)
     (source_map (build_channels inputs apps channels s))"
proof -
  let ?s0 = "s\<lparr>source_list := [], source_map := [], calls := calls s @ [Get_external_status]\<rparr>"
  have "well_formed_catalog (enable_user_labels ?s0) (source_map ?s0)"
    by (simp add: well_formed_catalog_def)
  from sources_extend_well_formed [OF this, of inputs SourceType_INPUT True None]
  show a: "well_formed_catalog (enable_user_labels s) (source_map (build_inputs inputs s))"
    by (simp add: build_inputs_def)
  let ?s1 = "(build_inputs inputs s)\<lparr>calls := calls s @ [Get_external_status, Get_app_list]\<rparr>"
  from a have "well_formed_catalog (enable_user_labels ?s1) (source_map ?s1)"
    by (simp add: build_inputs_inv)
  from sources_extend_well_formed [OF this, of apps SourceType_APP False "Some ''title''"]
  show b: "well_formed_catalog (enable_user_labels s) (source_map (build_apps inputs apps s))"
    by (simp add: build_apps_def build_inputs_inv)
  let ?s2 = "(build_apps inputs apps s)\<lparr>calls := calls s @ [Get_external_status, Get_app_list,
           Get_content_list_all ''tv'']\<rparr>"
  from b have "well_formed_catalog (enable_user_labels ?s2) (source_map ?s2)"
    by (simp add: build_apps_inv)
  from sources_extend_well_formed [OF this, of channels SourceType_CHANNEL False None]
  show "well_formed_catalog (enable_user_labels s)
     (source_map (build_channels inputs apps channels s))"
    by (simp add: build_channels_def build_apps_inv)
qed

lemma async_update_sources_well_formed:
  "well_formed_catalog (enable_user_labels (snd (async_update_sources cl s)))
     (source_map (snd (async_update_sources cl s)))"
proof -
  have e: "well_formed_catalog (enable_user_labels s) []"
    by (simp add: well_formed_catalog_def)
  have l: "enable_user_labels (build_channels inputs apps channels s) = enable_user_labels s"
    for inputs apps channels
    by (simp add: build_channels_def build_apps_inv)
  show ?thesis
    unfolding async_update_sources_cases
    by (simp add: build_well_formed build_inputs_inv build_apps_inv e l split: sum.splits)
qed

subsection \<open>Source resolution\<close>

text \<open>The scan over a well-formed catalog, when titles are compared.\<close>

lemma source_find_scan_display_title:
  "source_find_scan cl labels query ty False ((uri, item) # rest) coarse =
     (case i_type item of
        None \<Rightarrow> Raise KeyError
      | Some k \<Rightarrow>
          if k = ty then
            (case display_title labels item of
               None \<Rightarrow> Raise AttributeError
             | Some t \<Rightarrow>
                 if str_lower cl query = str_lower cl t then Start uri
                 else if sublist (str_lower cl query) (str_lower cl t)
                 then source_find_scan cl labels query ty False rest (Some uri)
                 else source_find_scan cl labels query ty False rest coarse)
          else source_find_scan cl labels query ty False rest coarse)"
  by (simp add: display_title_def truthy_def Let_def split: option.splits)

lemma source_find_scan_titles:
  assumes "well_formed_catalog labels sm"
  shows "source_find_scan cl labels query ty False sm coarse =
     (case find (exact_match cl labels query ty) sm of
        Some e \<Rightarrow> Start (fst e)
      | None \<Rightarrow>
          Finished (case filter (substring_match cl labels query ty) sm of
                      [] \<Rightarrow> coarse
                    | e # es \<Rightarrow> Some (fst (last (e # es)))))"
  using assms
proof (induction sm arbitrary: coarse)
  case Nil
  show ?case by simp
next
  case (Cons e sm)
  obtain uri item where e: "e = (uri, item)" by (cases e)
  from Cons.prems e obtain k t where k: "i_type item = Some k"
    and t: "display_title labels item = Some t" and wf: "well_formed_catalog labels sm"
    by (auto simp: well_formed_catalog_def)
  note IH = Cons.IH [OF wf]
  have m1: "exact_match cl labels query ty (uri, item) = (k = ty \<and> str_lower cl query = str_lower cl t)"
    by (simp add: exact_match_def k t)
  have m2: "substring_match cl labels query ty (uri, item)
      = (k = ty \<and> sublist (str_lower cl query) (str_lower cl t))"
    by (simp add: substring_match_def k t)
  have step: "source_find_scan cl labels query ty False ((uri, item) # sm) coarse =
     (if k = ty then
        if str_lower cl query = str_lower cl t then Start uri
        else if sublist (str_lower cl query) (str_lower cl t)
        then source_find_scan cl labels query ty False sm (Some uri)
        else source_find_scan cl labels query ty False sm coarse
      else source_find_scan cl labels query ty False sm coarse)"
    by (simp only: source_find_scan_display_title k t option.case)
  show ?case
    unfolding e step IH find.simps filter.simps m1 m2
    by (auto split: option.splits list.splits)
qed

text \<open>
  C1, as the code has it. For a query that is not a content identifier, a kind and a
  well-formed catalog, when titles are compared (any kind but CHANNEL with a numeric
  query): the first entry of the kind whose display title equals the query, letter case
  apart, is started, whatever substring matches were scanned before it; without such an
  entry the last entry of the kind whose display title contains the query is started;
  without any the not-found error is raised.
\<close>

theorem source_find_title_resolution:
  assumes "\<not> is_uri_query query"
    and "\<not> (ty = SourceType_CHANNEL \<and> str_isnumeric cl query)"
    and "well_formed_catalog (enable_user_labels s) (source_map s)"
  shows "async_source_find cl query ty s =
     (case find (exact_match cl (enable_user_labels s) query ty) (source_map s) of
        Some e \<Rightarrow> async_source_start cl (fst e) ty s
      | None \<Rightarrow>
          (case filter (substring_match cl (enable_user_labels s) query ty) (source_map s) of
             [] \<Rightarrow> (Inl (ValueError (Not_found ty query)), s)
           | e # es \<Rightarrow> async_source_start cl (fst (last (e # es))) ty s))"
proof -
  let ?ms = "filter (substring_match cl (enable_user_labels s) query ty) (source_map s)"
  have ne: "?ms \<noteq> [] \<Longrightarrow> fst (last ?ms) \<noteq> []"
  proof -
    assume a: "?ms \<noteq> []"
    then have "last ?ms \<in> set ?ms" by (rule last_in_set)
    then have "last ?ms \<in> set (source_map s)" by simp
    with assms(3) show ?thesis
      by (auto simp: well_formed_catalog_def list_all_iff)
  qed
  from assms(1,2) have "async_source_find cl query ty s =
     (case source_find_scan cl (enable_user_labels s) query ty False (source_map s) None of
        Start uri \<Rightarrow> async_source_start cl uri ty s
      | Raise e \<Rightarrow> (Inl e, s)
      | Finished coarse_uri \<Rightarrow>
          if truthy coarse_uri then async_source_start cl (the coarse_uri) ty s
          else (Inl (ValueError (Not_found ty query)), s))"
    by (auto simp: async_source_find_def is_uri_query_def Let_def)
  also have "\<dots> = (case find (exact_match cl (enable_user_labels s) query ty) (source_map s) of
        Some e \<Rightarrow> async_source_start cl (fst e) ty s
      | None \<Rightarrow>
          (case ?ms of
             [] \<Rightarrow> (Inl (ValueError (Not_found ty query)), s)
           | e # es \<Rightarrow> async_source_start cl (fst (last (e # es))) ty s))"
  proof (cases "find (exact_match cl (enable_user_labels s) query ty) (source_map s)")
    case (Some e)
    then show ?thesis by (simp add: source_find_scan_titles [OF assms(3)])
  next
    case None
    show ?thesis
    proof (cases ?ms)
      case Nil
      with None show ?thesis
        by (simp add: source_find_scan_titles [OF assms(3)] truthy_def)
    next
      case (Cons e es)
      with ne have "fst (last (e # es)) \<noteq> []" by simp
      with None Cons show ?thesis
        by (simp add: source_find_scan_titles [OF assms(3)] truthy_def)
    qed
  qed
  finally show ?thesis .
qed

lemmas eval_simps =
  news_coordinator_def example_coordinator_def init_coordinator_def blank_item_def
  exact_match_def substring_match_def display_title_def truthy_def ascii_lower_def ascii_lower_char_def
  SourceType_INPUT_def SourceType_CHANNEL_def SourceType_APP_def
  sublist_code idle_env_def

theorem source_find_title_resolution_witness:
  "async_source_find idle_env ''newsroom'' SourceType_INPUT news_coordinator
     = (Inr (), news_coordinator\<lparr>calls := [Set_play_content ''extInput:hdmi?port=2'']\<rparr>)
   \<and> async_source_find idle_env ''news'' SourceType_INPUT news_coordinator
     = (Inr (), news_coordinator\<lparr>calls := [Set_play_content ''extInput:hdmi?port=3'']\<rparr>)"
proof -
  have q: "\<not> is_uri_query ''newsroom''" "\<not> is_uri_query ''news''"
    by (simp_all add: is_uri_query_def)
  have k: "\<not> (SourceType_INPUT = SourceType_CHANNEL \<and> str_isnumeric idle_env ''newsroom'')"
    "\<not> (SourceType_INPUT = SourceType_CHANNEL \<and> str_isnumeric idle_env ''news'')"
    by (simp_all add: SourceType_INPUT_def SourceType_CHANNEL_def)
  have w: "well_formed_catalog (enable_user_labels news_coordinator) (source_map news_coordinator)"
    by (simp add: well_formed_catalog_def eval_simps)
  show ?thesis
    using source_find_title_resolution [OF q(1) k(1) w]
      source_find_title_resolution [OF q(2) k(2) w]
    by (simp add: eval_simps async_source_start_def client_call_def)
qed

text \<open>
  C1 as stated fails. Three inputs contain ``news'' and none equals it: the first in
  insertion order is port 1, the one started is port 3. And for the CHANNEL kind a
  numeric query is compared with display numbers only: the channel titled ``24'' is an
  exact title match for the query ``24'', and the search ends in the not-found error.
\<close>

theorem first_substring_match_counterexample:
  "find (exact_match idle_env True ''news'' SourceType_INPUT) (source_map news_coordinator) = None
   \<and> map fst (filter (substring_match idle_env True ''news'' SourceType_INPUT)
               (source_map news_coordinator))
       = [''extInput:hdmi?port=1'', ''extInput:hdmi?port=2'', ''extInput:hdmi?port=3'']
   \<and> async_source_find idle_env ''news'' SourceType_INPUT news_coordinator
       = (Inr (), news_coordinator\<lparr>calls := [Set_play_content ''extInput:hdmi?port=3'']\<rparr>)
   \<and> map fst (filter (exact_match idle_env True ''24'' SourceType_CHANNEL) (source_map news_coordinator))
       = [''tv:dvbt?trip=1.2.3'']
   \<and> async_source_find idle_env ''24'' SourceType_CHANNEL news_coordinator
       = (Inl (ValueError (Not_found SourceType_CHANNEL ''24'')), news_coordinator)"
proof -
  have n: "ascii_int ''24'' = Some 24" "ascii_int ''7'' = Some 7"
    by (simp_all add: ascii_int_def strip_def is_blank_def valid_digits_def is_digit_def
        digits_val_def digit_val_def sublist_code)
  show ?thesis
    by (simp add: eval_simps async_source_find_def async_source_start_def client_call_def
        ascii_isnumeric_def is_digit_def n)
qed

subsection \<open>Label override\<close>

lemma source_find_scan_title_irrelevant:
  assumes "truthy (i_label item)"
  shows "source_find_scan cl True query ty n (pre @ (u, item\<lparr>i_title := t'\<rparr>) # post) coarse
       = source_find_scan cl True query ty n (pre @ (u, item) # post) coarse"
proof (induction pre arbitrary: coarse)
  case Nil
  from assms show ?case
    by (cases n; cases "i_type item") (simp_all add: Let_def)
next
  case (Cons e pre)
  obtain a b where e: "e = (a, b)" by (cases e)
  show ?case
    unfolding e append_Cons source_find_scan.simps Cons.IH ..
qed

lemma async_source_start_same_calls:
  assumes "calls s1 = calls s2"
  shows "fst (async_source_start cl uri ty s1) = fst (async_source_start cl uri ty s2)
       \<and> calls (snd (async_source_start cl uri ty s1)) = calls (snd (async_source_start cl uri ty s2))"
  using assms
  by (simp add: async_source_start_def client_call_def Let_def split: sum.splits)

lemma async_source_find_title_irrelevant:
  assumes "enable_user_labels s" and "truthy (i_label item)"
  shows "fst (async_source_find cl query ty (s\<lparr>source_map := pre @ (u, item\<lparr>i_title := t'\<rparr>) # post\<rparr>))
       = fst (async_source_find cl query ty (s\<lparr>source_map := pre @ (u, item) # post\<rparr>))
     \<and> calls (snd (async_source_find cl query ty
                      (s\<lparr>source_map := pre @ (u, item\<lparr>i_title := t'\<rparr>) # post\<rparr>)))
       = calls (snd (async_source_find cl query ty (s\<lparr>source_map := pre @ (u, item) # post\<rparr>)))"
proof -
  let ?s1 = "s\<lparr>source_map := pre @ (u, item\<lparr>i_title := t'\<rparr>) # post\<rparr>"
  let ?s2 = "s\<lparr>source_map := pre @ (u, item) # post\<rparr>"
  have c: "calls ?s1 = calls ?s2" by simp
  note st = async_source_start_same_calls [OF c]
  show ?thesis
    using assms(1)
    by (simp add: async_source_find_def Let_def
        source_find_scan_title_irrelevant [OF assms(2)] st split: scan.splits)
qed

lemma label_in_source_list:
  assumes "enable_user_labels s" and "i_label item = Some l" and "l \<noteq> []"
    and "i_uri item = Some u" and "u \<noteq> []"
  shows "source_list (sources_extend [item] ty True None s)
       = (if l \<in> set (source_list s) then source_list s else source_list s @ [l])"
  using assms
  by (simp add: sources_extend_def sources_extend_step_title display_title_def truthy_def Let_def)

lemma label_in_playing:
  assumes "enable_user_labels s" and "i_label item = Some l" and "l \<noteq> []"
    and "map_of (source_map s) u = Some item"
    and "rsp_playing_info cl (calls s @ [Get_playing_info]) = Inr p"
    and "p_uri p = Some u" and "\<not> prefix ''tv'' u" and "start_ok cl p"
  shows "fst (async_update_playing cl s) = Inr ()
       \<and> media_title (snd (async_update_playing cl s)) = Some l
       \<and> source (snd (async_update_playing cl s)) = Some l"
proof -
  from assms(6) have nonempty: "\<not> playing_info_empty p"
    by (simp add: playing_info_empty_def)
  from assms(8) consider (none) "p_startDateTime p = None" | (blank) "p_startDateTime p = Some []"
    | (parsed) t d where "p_startDateTime p = Some t" "t \<noteq> []" "elapsed_since cl t = Some d"
    by (auto simp: start_ok_def split: option.splits)
  then show ?thesis
  proof cases
    case none
    with assms(1-7) nonempty show ?thesis
      by (cases "u = []")
         (simp_all add: async_update_playing_def client_call_def Let_def starts_with_def
           truthy_def catalog_entry_def)
  next
    case blank
    with assms(1-7) nonempty show ?thesis
      by (cases "u = []")
         (simp_all add: async_update_playing_def client_call_def Let_def starts_with_def
           truthy_def catalog_entry_def)
  next
    case parsed
    with assms(1-7) nonempty show ?thesis
      by (cases "u = []")
         (simp_all add: async_update_playing_def client_call_def Let_def starts_with_def
           truthy_def catalog_entry_def)
  qed
qed

text \<open>
  An exact match behind a well-formed part of the catalog: the scan starts the first exact
  match of that part, or else this entry.
\<close>

lemma source_find_scan_exact_behind:
  assumes "well_formed_catalog labels pre" and "exact_match cl labels query ty (u, item)"
  shows "source_find_scan cl labels query ty False (pre @ (u, item) # post) coarse
       = Start (case find (exact_match cl labels query ty) pre of
                  None \<Rightarrow> u
                | Some e \<Rightarrow> fst e)"
  using assms(1)
proof (induction pre arbitrary: coarse)
  case Nil
  from assms(2) obtain t where "i_type item = Some ty" and "display_title labels item = Some t"
    and "str_lower cl query = str_lower cl t"
    by (auto simp: exact_match_def split: option.splits)
  then show ?case
    by (simp only: append_Nil source_find_scan_display_title option.case simp_thms if_True
        find.simps)
next
  case (Cons e pre)
  obtain a b where e: "e = (a, b)" by (cases e)
  from Cons.prems e obtain k t where k: "i_type b = Some k"
    and t: "display_title labels b = Some t" and wf: "well_formed_catalog labels pre"
    by (auto simp: well_formed_catalog_def)
  have m: "exact_match cl labels query ty (a, b) = (k = ty \<and> str_lower cl query = str_lower cl t)"
    by (simp add: exact_match_def k t)
  have step: "source_find_scan cl labels query ty False ((a, b) # pre @ (u, item) # post) coarse =
     (if k = ty then
        if str_lower cl query = str_lower cl t then Start a
        else if sublist (str_lower cl query) (str_lower cl t)
        then source_find_scan cl labels query ty False (pre @ (u, item) # post) (Some a)
        else source_find_scan cl labels query ty False (pre @ (u, item) # post) coarse
      else source_find_scan cl labels query ty False (pre @ (u, item) # post) coarse)"
    by (simp only: source_find_scan_display_title k t option.case)
  show ?case
    unfolding e append_Cons step Cons.IH [OF wf] find.simps m
    by simp
qed

lemma label_in_resolution:
  assumes "enable_user_labels s" and "i_label item = Some l" and "l \<noteq> []"
    and "i_type item = Some ty" and "\<not> is_uri_query query"
    and "\<not> (ty = SourceType_CHANNEL \<and> str_isnumeric cl query)"
    and "str_lower cl query = str_lower cl l"
    and "source_map s = pre @ (u, item) # post"
    and "well_formed_catalog (enable_user_labels s) pre"
  shows "async_source_find cl query ty s =
     async_source_start cl
       (case find (exact_match cl (enable_user_labels s) query ty) pre of
          None \<Rightarrow> u
        | Some e \<Rightarrow> fst e) ty s"
proof -
  from assms(6) have n: "(ty = SourceType_CHANNEL \<and> str_isnumeric cl query) = False" by simp
  from assms(5) have q: "\<not> (prefix ''extInput:'' query \<or> prefix ''tv:'' query
      \<or> prefix ''com.sony.dtv.'' query)"
    by (simp add: is_uri_query_def)
  from assms(1-4,7) have x: "exact_match cl (enable_user_labels s) query ty (u, item)"
    by (simp add: exact_match_def display_title_def)
  show ?thesis
    using q
    by (simp add: async_source_find_def n Let_def assms(8)
        source_find_scan_exact_behind [OF assms(9) x])
qed

text \<open>
  C5, as the code has it. For an entry with a non-empty label, user labels being enabled:
  the catalog build puts the label into \<open>source_list\<close>; when the entry's uri is playing,
  does not start with \<open>tv\<close>, and the start timestamp is read without error, the
  playback title and the source are the label; source resolution does not depend on the
  entry's raw title, and when titles are compared a query equal to the label, letter case
  apart, starts the entry, wherever it stands in the catalog, unless an entry before it
  is such a match and is started. In the witness the raw title of the entry in front is
  the query, and its label is not.
\<close>

theorem label_override_consistent:
  assumes "enable_user_labels s" and "i_label item = Some l" and "l \<noteq> []"
  shows "(i_uri item = Some u \<and> u \<noteq> [] \<longrightarrow>
            source_list (sources_extend [item] ty True None s)
              = (if l \<in> set (source_list s) then source_list s else source_list s @ [l]))
    \<and> (map_of (source_map s) u = Some item
         \<and> rsp_playing_info cl (calls s @ [Get_playing_info]) = Inr p
         \<and> p_uri p = Some u \<and> \<not> prefix ''tv'' u \<and> start_ok cl p \<longrightarrow>
            fst (async_update_playing cl s) = Inr ()
            \<and> media_title (snd (async_update_playing cl s)) = Some l
            \<and> source (snd (async_update_playing cl s)) = Some l)
    \<and> fst (async_source_find cl query ty (s\<lparr>source_map := pre @ (u, item\<lparr>i_title := t'\<rparr>) # post\<rparr>))
         = fst (async_source_find cl query ty (s\<lparr>source_map := pre @ (u, item) # post\<rparr>))
    \<and> calls (snd (async_source_find cl query ty
                      (s\<lparr>source_map := pre @ (u, item\<lparr>i_title := t'\<rparr>) # post\<rparr>)))
         = calls (snd (async_source_find cl query ty (s\<lparr>source_map := pre @ (u, item) # post\<rparr>)))
    \<and> (i_type item = Some ty \<and> \<not> is_uri_query query
         \<and> \<not> (ty = SourceType_CHANNEL \<and> str_isnumeric cl query)
         \<and> str_lower cl query = str_lower cl l
         \<and> source_map s = pre @ (u, item) # post
         \<and> well_formed_catalog (enable_user_labels s) pre \<longrightarrow>
            async_source_find cl query ty s =
              async_source_start cl
                (case find (exact_match cl (enable_user_labels s) query ty) pre of
                   None \<Rightarrow> u
                 | Some e \<Rightarrow> fst e) ty s)"
proof -
  from assms(2,3) have tr: "truthy (i_label item)" by (simp add: truthy_def)
  have a: "i_uri item = Some u \<and> u \<noteq> [] \<longrightarrow>
            source_list (sources_extend [item] ty True None s)
              = (if l \<in> set (source_list s) then source_list s else source_list s @ [l])"
    using label_in_source_list [OF assms] by blast
  have b: "map_of (source_map s) u = Some item
         \<and> rsp_playing_info cl (calls s @ [Get_playing_info]) = Inr p
         \<and> p_uri p = Some u \<and> \<not> prefix ''tv'' u \<and> start_ok cl p \<longrightarrow>
            fst (async_update_playing cl s) = Inr ()
            \<and> media_title (snd (async_update_playing cl s)) = Some l
            \<and> source (snd (async_update_playing cl s)) = Some l"
    using label_in_playing [OF assms] by blast
  note c = async_source_find_title_irrelevant [OF assms(1) tr, of cl query ty pre u t' post]
  have d: "i_type item = Some ty \<and> \<not> is_uri_query query
         \<and> \<not> (ty = SourceType_CHANNEL \<and> str_isnumeric cl query)
         \<and> str_lower cl query = str_lower cl l
         \<and> source_map s = pre @ (u, item) # post
         \<and> well_formed_catalog (enable_user_labels s) pre \<longrightarrow>
            async_source_find cl query ty s =
              async_source_start cl
                (case find (exact_match cl (enable_user_labels s) query ty) pre of
                   None \<Rightarrow> u
                 | Some e \<Rightarrow> fst e) ty s"
    using label_in_resolution [OF assms] by blast
  from a b c d show ?thesis by blast
qed

theorem label_override_consistent_witness:
  "source_list (sources_extend [console_item] SourceType_INPUT True None console_coordinator)
     = [''Game Console'']
   \<and> fst (async_update_playing console_env console_coordinator) = Inr ()
   \<and> media_title (snd (async_update_playing console_env console_coordinator))
       = Some ''Game Console''
   \<and> source (snd (async_update_playing console_env console_coordinator)) = Some ''Game Console''
   \<and> async_source_find console_env ''game console'' SourceType_INPUT console_coordinator
       = (Inr (), console_coordinator\<lparr>calls := [Set_play_content ''extInput:hdmi?port=1'']\<rparr>)"
proof -
  have h: "enable_user_labels console_coordinator" "i_label console_item = Some ''Game Console''"
    "''Game Console'' \<noteq> []"
    by (simp_all add: console_coordinator_def console_item_def example_coordinator_def
        init_coordinator_def blank_item_def)
  have a: "i_uri console_item = Some ''extInput:hdmi?port=1'' \<and> ''extInput:hdmi?port=1'' \<noteq> []"
    by (simp add: console_item_def blank_item_def)
  have b: "map_of (source_map console_coordinator) ''extInput:hdmi?port=1'' = Some console_item
    \<and> rsp_playing_info console_env (calls console_coordinator @ [Get_playing_info])
        = Inr (no_playing_info\<lparr>p_uri := Some ''extInput:hdmi?port=1'', p_title := Some ''HDMI 1''\<rparr>)
    \<and> p_uri (no_playing_info\<lparr>p_uri := Some ''extInput:hdmi?port=1'', p_title := Some ''HDMI 1''\<rparr>)
        = Some ''extInput:hdmi?port=1''
    \<and> \<not> prefix ''tv'' ''extInput:hdmi?port=1''
    \<and> start_ok console_env (no_playing_info\<lparr>p_uri := Some ''extInput:hdmi?port=1'',
          p_title := Some ''HDMI 1''\<rparr>)"
    by (simp add: console_coordinator_def console_env_def idle_env_def start_ok_def
        no_playing_info_def)
  have c: "i_type console_item = Some SourceType_INPUT \<and> \<not> is_uri_query ''game console''
    \<and> \<not> (SourceType_INPUT = SourceType_CHANNEL \<and> str_isnumeric console_env ''game console'')
    \<and> str_lower console_env ''game console'' = str_lower console_env ''Game Console''
    \<and> source_map console_coordinator
        = [(''extInput:hdmi?port=2'', bluray_item)] @ (''extInput:hdmi?port=1'', console_item) # []
    \<and> well_formed_catalog (enable_user_labels console_coordinator)
          [(''extInput:hdmi?port=2'', bluray_item)]"
    by (simp add: console_item_def bluray_item_def blank_item_def is_uri_query_def
        SourceType_INPUT_def SourceType_CHANNEL_def console_env_def idle_env_def
        ascii_lower_def ascii_lower_char_def console_coordinator_def well_formed_catalog_def
        display_title_def example_coordinator_def init_coordinator_def)
  have f: "find (exact_match console_env (enable_user_labels console_coordinator)
                   ''game console'' SourceType_INPUT)
             [(''extInput:hdmi?port=2'', bluray_item)] = None"
    by (simp add: exact_match_def display_title_def bluray_item_def blank_item_def
        console_env_def idle_env_def ascii_lower_def ascii_lower_char_def
        console_coordinator_def example_coordinator_def init_coordinator_def)
  have l: "source_list console_coordinator = []"
    by (simp add: console_coordinator_def example_coordinator_def init_coordinator_def)
  have st: "async_source_start console_env ''extInput:hdmi?port=1'' SourceType_INPUT
      console_coordinator
    = (Inr (), console_coordinator\<lparr>calls := [Set_play_content ''extInput:hdmi?port=1'']\<rparr>)"
    by (simp add: async_source_start_def client_call_def console_env_def idle_env_def
        SourceType_INPUT_def SourceType_APP_def console_coordinator_def example_coordinator_def
        init_coordinator_def)
  from label_override_consistent [OF h, of "''extInput:hdmi?port=1''" SourceType_INPUT
      console_env "no_playing_info\<lparr>p_uri := Some ''extInput:hdmi?port=1'', p_title := Some ''HDMI 1''\<rparr>"
      "''game console''" "[(''extInput:hdmi?port=2'', bluray_item)]" None "[]"] a b c
  show ?thesis
    by (simp only: f l st option.case list.set empty_iff if_False append_Nil simp_thms)
qed

text \<open>
  C5 as stated fails for a uri that starts with \<open>tv\<close>: the channel of the catalog has
  the label ``Favourite'', and while it plays the title is the program title and the
  source is unset.
\<close>

theorem label_override_counterexample:
  "enable_user_labels favourite_coordinator
   \<and> map_option i_label (map_of (source_map favourite_coordinator) ''tv:dvbt?trip=1.2.3'')
       = Some (Some ''Favourite'')
   \<and> p_uri (tv_playing_info\<lparr>p_uri := Some ''tv:dvbt?trip=1.2.3''\<rparr>) = Some ''tv:dvbt?trip=1.2.3''
   \<and> async_update_playing favourite_env favourite_coordinator
       = (Inr (), favourite_coordinator\<lparr>
            calls := calls favourite_coordinator @ [Get_playing_info],
            media_title := Some ''Evening News'', media_uri := Some ''tv:dvbt?trip=1.2.3'',
            media_channel := Some ''NewsCh'', media_content_id := Some ''5'',
            media_content_type := Some MediaType_CHANNEL, source := None\<rparr>)"
proof -
  have f: "favourite_coordinator =
     example_coordinator\<lparr>
       source_map := [(''tv:dvbt?trip=1.2.3'', favourite_item\<lparr>i_type := Some SourceType_CHANNEL\<rparr>)],
       calls := [Get_external_status, Get_app_list, Get_content_list_all ''tv'']\<rparr>"
    by (simp add: favourite_coordinator_def async_update_sources_def client_call_def
        favourite_env_def idle_env_def sources_extend_def sources_extend_step_title
        display_title_def truthy_def favourite_item_def blank_item_def
        example_coordinator_def init_coordinator_def)
  show ?thesis
    unfolding f
    by (simp add: async_update_playing_def client_call_def favourite_env_def idle_env_def
        favourite_item_def blank_item_def tv_playing_info_def no_playing_info_def
        playing_info_empty_def starts_with_def truthy_def py_or_def
        example_coordinator_def init_coordinator_def)
qed

end
